theory Spec2Isabelle
  imports Complex_Main
begin

section \<open>JavaScript values as the two scripts use them\<close>

text \<open>
  The repository is two browser scripts: \<^verbatim>\<open>frontend/script.js\<close> (the generation panel) and
  \<^verbatim>\<open>navbar.js\<close> (the navigation session widget). Both are glue between the DOM, the
  \<^verbatim>\<open>fetch\<close> API and JSON answers of the backend, so the embedding needs the part of
  JavaScript they rely on: numbers with \<^verbatim>\<open>NaN\<close>, JSON values, property access that raises
  on \<^verbatim>\<open>null\<close>/\<^verbatim>\<open>undefined\<close>, truthiness, and conversion to strings.

  A JavaScript string is modelled by its bytes in UTF-8 (an unpaired surrogate by the
  three bytes of its code point), so that concatenation and equality are those of the
  byte lists and \<^verbatim>\<open>encodeURIComponent\<close> works byte by byte.

  A finite number is the rational it denotes (every finite double is one); \<^verbatim>\<open>-0\<close> is not
  told apart from \<^verbatim>\<open>0\<close>, which neither \<^verbatim>\<open>>=\<close> nor the conversion to a string does.

  An asynchronous function is modelled by the state it leaves once it has run as far
  as it can; what the awaited promises do is an argument of the model. The clipboard
  helper \<^verbatim>\<open>copyFEN\<close> and the \<^verbatim>\<open>DOMContentLoaded\<close> listener, which only calls
  \<^verbatim>\<open>initNavbar\<close> and \<^verbatim>\<open>setActiveNavLink\<close>, are left out.
\<close>

datatype jsnum = NaN | NegInf | Fin rat | PosInf

datatype jsval =
    Undefined
  | Null
  | Bool bool
  | Num jsnum
  | Str string
  | Arr "jsval list"
  | Obj "(string \<times> jsval) list"

text \<open>An exception value: the name of its constructor and its \<^verbatim>\<open>message\<close>.\<close>

datatype js_error = JsError (error_name: string) (message: string)

text \<open>
  What the browser decides and the scripts only call: the host name of the page, how a
  number that is not a small integer prints, what \<^verbatim>\<open>toLocaleString()\<close> returns in the
  user's locale, and the wording of the messages of the engine's own exceptions.
\<close>

record platform =
  hostname :: string
  floatToString :: "rat \<Rightarrow> string"
  toLocaleString :: "jsval \<Rightarrow> js_error + string"
  engineMessage :: "string \<Rightarrow> string"

definition type_error :: "platform \<Rightarrow> js_error" where
  "type_error p = JsError ''TypeError'' (engineMessage p ''TypeError'')"

definition uri_error :: "platform \<Rightarrow> js_error" where
  "uri_error p = JsError ''URIError'' (engineMessage p ''URIError'')"

subsection \<open>Comparison and truthiness\<close>

text \<open>
  \<^verbatim>\<open>a < b\<close> on numbers is undefined (here \<open>None\<close>) as soon as one side is \<^verbatim>\<open>NaN\<close>, and
  \<^verbatim>\<open>a >= b\<close> is then false.
\<close>

fun js_lt :: "jsnum \<Rightarrow> jsnum \<Rightarrow> bool option" where
  "js_lt NaN _ = None"
| "js_lt _ NaN = None"
| "js_lt PosInf _ = Some False"
| "js_lt _ NegInf = Some False"
| "js_lt NegInf _ = Some True"
| "js_lt _ PosInf = Some True"
| "js_lt (Fin a) (Fin b) = Some (a < b)"

definition js_ge :: "jsnum \<Rightarrow> jsnum \<Rightarrow> bool" where
  "js_ge a b = (case js_lt a b of None \<Rightarrow> False | Some r \<Rightarrow> \<not> r)"

fun truthy :: "jsval \<Rightarrow> bool" where
  "truthy Undefined = False"
| "truthy Null = False"
| "truthy (Bool b) = b"
| "truthy (Num n) = (n \<noteq> NaN \<and> n \<noteq> Fin 0)"
| "truthy (Str s) = (s \<noteq> [])"
| "truthy (Arr _) = True"
| "truthy (Obj _) = True"

fun nullish :: "jsval \<Rightarrow> bool" where
  "nullish Undefined = True"
| "nullish Null = True"
| "nullish _ = False"

subsection \<open>Property access\<close>

text \<open>
  \<^verbatim>\<open>v.k\<close> for the keys the scripts read (\<^verbatim>\<open>success\<close>, \<^verbatim>\<open>data\<close>, \<^verbatim>\<open>error\<close>, \<^verbatim>\<open>user\<close>, the
  fields of a report and of a user; none of them is inherited from a prototype): a
  TypeError on \<^verbatim>\<open>null\<close> and \<^verbatim>\<open>undefined\<close>, the own property of an object, and
  \<^verbatim>\<open>undefined\<close> everywhere else.
\<close>

fun get_prop :: "platform \<Rightarrow> jsval \<Rightarrow> string \<Rightarrow> js_error + jsval" where
  "get_prop p Undefined k = Inl (type_error p)"
| "get_prop p Null k = Inl (type_error p)"
| "get_prop p (Obj kvs) k = Inr (case map_of kvs k of None \<Rightarrow> Undefined | Some v \<Rightarrow> v)"
| "get_prop p _ k = Inr Undefined"

subsection \<open>Conversion to a string\<close>

definition digit_char :: "nat \<Rightarrow> char" where
  "digit_char d = ''0123456789ABCDEF'' ! d"

function decimal_digits :: "int \<Rightarrow> string" where
  "decimal_digits n =
     (if n < 10 then [digit_char (nat n)]
      else decimal_digits (n div 10) @ [digit_char (nat (n mod 10))])"
  by pat_completeness auto
termination
  by (relation "measure nat") auto

declare decimal_digits.simps [simp del]

definition decimal :: "int \<Rightarrow> string" where
  "decimal i = (if i < 0 then ''-'' @ decimal_digits (- i) else decimal_digits i)"

text \<open>
  \<^verbatim>\<open>Number::toString\<close>: an integer of magnitude at most \<open>2^53\<close> prints as its decimal
  digits; how any other finite number prints is the platform's \<open>floatToString\<close>.
\<close>

definition number_to_string :: "platform \<Rightarrow> jsnum \<Rightarrow> string" where
  "number_to_string p n =
     (case n of
        NaN \<Rightarrow> ''NaN''
      | PosInf \<Rightarrow> ''Infinity''
      | NegInf \<Rightarrow> ''-Infinity''
      | Fin q \<Rightarrow>
          (if q = of_int \<lfloor>q\<rfloor> \<and> \<bar>q\<bar> \<le> 2 ^ 53 then decimal \<lfloor>q\<rfloor> else floatToString p q))"

text \<open>\<^verbatim>\<open>Array.prototype.join\<close> on strings already converted: the first exception wins.\<close>

fun join_strings :: "string \<Rightarrow> (js_error + string) list \<Rightarrow> js_error + string" where
  "join_strings sep [] = Inr []"
| "join_strings sep [x] = x"
| "join_strings sep (x # y # ys) =
     (case x of
        Inl e \<Rightarrow> Inl e
      | Inr s \<Rightarrow> (case join_strings sep (y # ys) of Inl e \<Rightarrow> Inl e | Inr t \<Rightarrow> Inr (s @ sep @ t)))"

text \<open>
  \<^verbatim>\<open>ToString\<close>, as a template literal and \<^verbatim>\<open>'...' + v\<close> apply it. An array joins its
  elements with a comma (\<^verbatim>\<open>null\<close> and \<^verbatim>\<open>undefined\<close> elements print as nothing); an
  object parsed from JSON prints as \<^verbatim>\<open>[object Object]\<close> unless it has an own property
  \<^verbatim>\<open>toString\<close>, which JSON cannot make callable, and the conversion then raises a
  TypeError.
\<close>

fun to_string :: "platform \<Rightarrow> jsval \<Rightarrow> js_error + string" where
  "to_string p Undefined = Inr ''undefined''"
| "to_string p Null = Inr ''null''"
| "to_string p (Bool b) = Inr (if b then ''true'' else ''false'')"
| "to_string p (Num n) = Inr (number_to_string p n)"
| "to_string p (Str s) = Inr s"
| "to_string p (Arr xs) =
     join_strings '','' (map (\<lambda>x. if nullish x then Inr [] else to_string p x) xs)"
| "to_string p (Obj kvs) =
     (if ''toString'' \<in> fst ` set kvs then Inl (type_error p) else Inr ''[object Object]'')"

text \<open>
  Assigning to \<^verbatim>\<open>textContent\<close> (a nullable DOM string): \<^verbatim>\<open>null\<close> and \<^verbatim>\<open>undefined\<close> empty
  the element, any other value is converted to a string.
\<close>

definition to_text :: "platform \<Rightarrow> jsval \<Rightarrow> js_error + string" where
  "to_text p v = (if nullish v then Inr [] else to_string p v)"

text \<open>
  \<^verbatim>\<open>v.toLocaleString()\<close>: reading the method raises a TypeError on \<^verbatim>\<open>null\<close> and
  \<^verbatim>\<open>undefined\<close>; on every other value the built-in method of the platform runs.
\<close>

definition call_toLocaleString :: "platform \<Rightarrow> jsval \<Rightarrow> js_error + string" where
  "call_toLocaleString p v = (if nullish v then Inl (type_error p) else toLocaleString p v)"

subsection \<open>\<^verbatim>\<open>encodeURIComponent\<close>\<close>

definition unreserved :: "char \<Rightarrow> bool" where
  "unreserved c \<longleftrightarrow>
     c \<in> set ''ABCDEFGHIJKLMNOPQRSTUVWXYZabcdefghijklmnopqrstuvwxyz0123456789-_.!~*'()''"

definition percent_byte :: "char \<Rightarrow> string" where
  "percent_byte c =
     (if unreserved c then [c]
      else [CHR ''%'', digit_char (of_char c div 16), digit_char (of_char c mod 16)])"

definition percent_encode :: "string \<Rightarrow> string" where
  "percent_encode s = concat (map percent_byte s)"

text \<open>
  An unpaired surrogate (a code point from \<open>U+D800\<close> to \<open>U+DFFF\<close>) is the byte \<open>0xED\<close>
  followed by a byte from \<open>0xA0\<close> on; \<^verbatim>\<open>encodeURIComponent\<close> raises a URIError on a
  string that holds one.
\<close>

fun lone_surrogate :: "string \<Rightarrow> bool" where
  "lone_surrogate (a # b # cs) =
     ((a = CHR 0xED \<and> (160::nat) \<le> of_char b) \<or> lone_surrogate (b # cs))"
| "lone_surrogate _ = False"

definition encodeURIComponent :: "platform \<Rightarrow> string \<Rightarrow> js_error + string" where
  "encodeURIComponent p s = (if lone_surrogate s then Inl (uri_error p) else Inr (percent_encode s))"

subsection \<open>\<^verbatim>\<open>parseInt\<close> with no radix\<close>

text \<open>
  The length in bytes of the white space character a string starts with, 0 when it
  starts with none: the ASCII ones, \<open>U+00A0\<close>, \<open>U+1680\<close>, \<open>U+2000\<close> to \<open>U+200A\<close>, \<open>U+2028\<close>,
  \<open>U+2029\<close>, \<open>U+202F\<close>, \<open>U+205F\<close>, \<open>U+3000\<close> and \<open>U+FEFF\<close>.
\<close>

definition ws_len :: "string \<Rightarrow> nat" where
  "ws_len s =
     (case s of
        [] \<Rightarrow> 0
      | a # r1 \<Rightarrow>
          if a \<in> set [CHR 0x09, CHR 0x0A, CHR 0x0B, CHR 0x0C, CHR 0x0D, CHR 0x20] then 1
          else
            (case r1 of
               [] \<Rightarrow> 0
             | b # r2 \<Rightarrow>
                 if a = CHR 0xC2 \<and> b = CHR 0xA0 then 2
                 else
                   (case r2 of
                      [] \<Rightarrow> 0
                    | c # _ \<Rightarrow>
                        if (a = CHR 0xE1 \<and> b = CHR 0x9A \<and> c = CHR 0x80)
                           \<or> (a = CHR 0xE2 \<and> b = CHR 0x80
                               \<and> ((128::nat) \<le> of_char c \<and> (of_char c :: nat) \<le> 138
                                  \<or> c \<in> set [CHR 0xA8, CHR 0xA9, CHR 0xAF]))
                           \<or> (a = CHR 0xE2 \<and> b = CHR 0x81 \<and> c = CHR 0x9F)
                           \<or> (a = CHR 0xE3 \<and> b = CHR 0x80 \<and> c = CHR 0x80)
                           \<or> (a = CHR 0xEF \<and> b = CHR 0xBB \<and> c = CHR 0xBF)
                        then 3 else 0)))"

function trim_start :: "string \<Rightarrow> string" where
  "trim_start s = (if ws_len s = 0 then s else trim_start (drop (ws_len s) s))"
  by pat_completeness auto
termination
proof (relation "measure length")
  show "wf (measure length)" by simp
next
  fix s :: string
  assume "ws_len s \<noteq> 0"
  moreover have "ws_len s \<le> length s"
    by (auto simp: ws_len_def split: list.splits)
  ultimately show "(drop (ws_len s) s, s) \<in> measure length" by simp
qed

declare trim_start.simps [simp del]

definition digit_value :: "nat \<Rightarrow> char \<Rightarrow> nat option" where
  "digit_value radix c =
     (case map_of (zip ''0123456789abcdef'' [0, 1, 2, 3, 4, 5, 6, 7, 8, 9, 10, 11, 12, 13, 14, 15]
                   @ zip ''ABCDEF'' [10, 11, 12, 13, 14, 15]) c of
        None \<Rightarrow> None
      | Some d \<Rightarrow> if d < radix then Some d else None)"

fun leading_digits :: "nat \<Rightarrow> string \<Rightarrow> nat list" where
  "leading_digits radix [] = []"
| "leading_digits radix (c # cs) =
     (case digit_value radix c of None \<Rightarrow> [] | Some d \<Rightarrow> d # leading_digits radix cs)"

definition digits_value :: "nat \<Rightarrow> nat list \<Rightarrow> int" where
  "digits_value radix ds = foldl (\<lambda>acc d. acc * int radix + int d) 0 ds"

function bit_length :: "int \<Rightarrow> nat" where
  "bit_length n = (if n \<le> 0 then 0 else Suc (bit_length (n div 2)))"
  by pat_completeness auto
termination
  by (relation "measure nat") auto

declare bit_length.simps [simp del]

text \<open>
  The double nearest to a natural number (ties to even); from \<open>2^1024\<close> on it is
  infinite (here \<open>None\<close>).
\<close>

definition nearest_double :: "int \<Rightarrow> int option" where
  "nearest_double a =
     (let e = bit_length a - 53;
          q = a div 2 ^ e;
          r = a mod 2 ^ e;
          q' = (if 2 * r > 2 ^ e \<or> (2 * r = 2 ^ e \<and> odd q) then q + 1 else q);
          m = q' * 2 ^ e
      in if m < 2 ^ 1024 then Some m else None)"

text \<open>
  \<^verbatim>\<open>parseInt(text)\<close>: leading white space is dropped, then an optional sign, then
  \<^verbatim>\<open>0x\<close> or \<^verbatim>\<open>0X\<close> selects radix 16 (radix 10 otherwise); the value is that of the longest
  run of digits that follows, \<^verbatim>\<open>NaN\<close> when there is no digit. Whatever follows the digits
  is ignored.
\<close>

definition parseInt :: "string \<Rightarrow> jsnum" where
  "parseInt inputString =
     (let s = trim_start inputString;
          negative = (take 1 s = ''-'');
          s1 = (if take 1 s = ''-'' \<or> take 1 s = ''+'' then drop 1 s else s);
          hex = (take 2 s1 = ''0x'' \<or> take 2 s1 = ''0X'');
          radix = (if hex then 16 else 10);
          s2 = (if hex then drop 2 s1 else s1);
          ds = leading_digits radix s2
      in if ds = [] then NaN
         else
           (case nearest_double (digits_value radix ds) of
              None \<Rightarrow> (if negative then NegInf else PosInf)
            | Some m \<Rightarrow> Fin (if negative then - of_int m else of_int m)))"

section \<open>The DOM and the network as the scripts see them\<close>

text \<open>
  A call of \<^verbatim>\<open>fetch\<close>: the URL, the method (\<^verbatim>\<open>GET\<close> when the script gives none), the
  headers, the \<^verbatim>\<open>credentials\<close> option, and the value handed to \<^verbatim>\<open>JSON.stringify\<close> for
  the body (which prints \<^verbatim>\<open>NaN\<close> and the infinities as \<^verbatim>\<open>null\<close>).
\<close>

record request =
  url :: string
  http_method :: string
  headers :: "(string \<times> string) list"
  credentials :: "string option"
  body :: "jsval option"

text \<open>
  How \<^verbatim>\<open>await fetch(...)\<close> followed by \<^verbatim>\<open>await response.json()\<close> ends: one of the two
  promises never settles, one of them rejects, or the body parses to a JSON value.
\<close>

datatype fetch_outcome = NeverSettles | Rejects js_error | Resolves jsval

text \<open>
  The \<^verbatim>\<open>class\<close> attribute as \<^verbatim>\<open>classList\<close> reads it: the tokens between ASCII white space,
  each kept once, in order.
\<close>

fun tokens_from :: "string \<Rightarrow> string \<Rightarrow> string list" where
  "tokens_from cur [] = (if cur = [] then [] else [cur])"
| "tokens_from cur (c # cs) =
     (if c \<in> set [CHR 0x09, CHR 0x0A, CHR 0x0C, CHR 0x0D, CHR 0x20]
      then (if cur = [] then tokens_from [] cs else cur # tokens_from [] cs)
      else tokens_from (cur @ [c]) cs)"

definition class_tokens :: "string \<Rightarrow> string list" where
  "class_tokens s = rev (remdups (rev (tokens_from [] s)))"

definition classList_add :: "string \<Rightarrow> string list \<Rightarrow> string list" where
  "classList_add c cs = (if c \<in> set cs then cs else cs @ [c])"

definition classList_remove :: "string \<Rightarrow> string list \<Rightarrow> string list" where
  "classList_remove c cs = filter (\<lambda>x. x \<noteq> c) cs"

text \<open>Statements run in order; the first exception ends the run, and what was done stays done.\<close>

fun run_stmts :: "('s \<Rightarrow> js_error + 's) list \<Rightarrow> 's \<Rightarrow> js_error option \<times> 's" where
  "run_stmts [] s = (None, s)"
| "run_stmts (c # cs) s = (case c s of Inl e \<Rightarrow> (Some e, s) | Inr s' \<Rightarrow> run_stmts cs s')"

definition and_then :: "'e + 'a \<Rightarrow> ('a \<Rightarrow> 'e + 'b) \<Rightarrow> 'e + 'b" where
  "and_then r f = (case r of Inl e \<Rightarrow> Inl e | Inr v \<Rightarrow> f v)"

section \<open>The generation panel (\<^verbatim>\<open>frontend/script.js\<close>)\<close>

text \<open>
  The elements the script looks up by id, each with the properties the script reads or
  writes, and the calls of \<^verbatim>\<open>fetch\<close> made so far. The script takes the elements for
  granted (it would not load without them), and so does the record.
\<close>

record panel =
  targetMin_value :: string
  targetMax_value :: string
  maxAttempts_value :: string
  generateBtn_disabled :: bool
  btnText_display :: string
  btnLoader_display :: string
  statusDiv_textContent :: string
  statusDiv_class :: "string list"
  resultsDiv_class :: "string list"
  fenText :: string
  whiteMaterial :: string
  blackMaterial :: string
  materialDiff :: string
  turn :: string
  evalLine1 :: string
  evalLine2 :: string
  attempts :: string
  timeSeconds :: string
  lichessLink_href :: string
  chesscomLink_href :: string
  requests :: "request list"

definition API_URL :: "platform \<Rightarrow> string" where
  "API_URL p =
     (if hostname p = ''localhost'' \<or> hostname p = ''127.0.0.1''
      then ''http://localhost:5000/api''
      else ''http://chessishard-env-env.eba-f8bxehfn.eu-west-1.elasticbeanstalk.com/api'')"

text \<open>The apostrophe, the accented letters and the two signs of the messages, in UTF-8.\<close>

definition apostrophe :: string where
  "apostrophe = [CHR 0x27]"

definition e_acute :: string where
  "e_acute = [CHR 0xC3, CHR 0xA9]"

definition e_grave :: string where
  "e_grave = [CHR 0xC3, CHR 0xA8]"

definition e_circumflex :: string where
  "e_circumflex = [CHR 0xC3, CHR 0xAA]"

definition a_grave :: string where
  "a_grave = [CHR 0xC3, CHR 0xA0]"

definition check_mark :: string where
  "check_mark = [CHR 0xE2, CHR 0x9C, CHR 0x85]"

definition cross_mark :: string where
  "cross_mark = [CHR 0xE2, CHR 0x9D, CHR 0x8C]"

definition invalid_range_message :: string where
  "invalid_range_message =
     ''Erreur: L'' @ apostrophe @ e_acute @ ''valuation min doit '' @ e_circumflex @ ''tre inf''
     @ e_acute @ ''rieure '' @ a_grave @ '' l'' @ apostrophe @ e_acute @ ''valuation max''"

definition in_progress_message :: string where
  "in_progress_message =
     ''G'' @ e_acute @ ''n'' @ e_acute @ ''ration en cours... Cela peut prendre jusqu''
     @ apostrophe @ a_grave @ '' 2 minutes.''"

definition success_message :: string where
  "success_message =
     check_mark @ '' Position g'' @ e_acute @ ''n'' @ e_acute @ ''r'' @ e_acute
     @ ''e avec succ'' @ e_grave @ ''s !''"

definition server_error_message :: "string \<Rightarrow> string" where
  "server_error_message err = cross_mark @ '' Erreur: '' @ err"

definition connection_error_message :: "string \<Rightarrow> string" where
  "connection_error_message msg =
     cross_mark @ '' Erreur de connexion: '' @ msg @ ''. V'' @ e_acute
     @ ''rifiez que le backend est d'' @ e_acute @ ''marr'' @ e_acute @ ''.''"

definition showStatus :: "string \<Rightarrow> string \<Rightarrow> panel \<Rightarrow> panel" where
  "showStatus msg type s =
     s\<lparr>statusDiv_textContent := msg,
       statusDiv_class := classList_remove ''hidden'' (class_tokens (''status '' @ type))\<rparr>"

text \<open>\<^verbatim>\<open>document.getElementById(id).textContent = data.key\<close>, the element given by its update.\<close>

definition assign_text ::
  "platform \<Rightarrow> jsval \<Rightarrow> string \<Rightarrow> (string \<Rightarrow> panel \<Rightarrow> panel) \<Rightarrow> panel \<Rightarrow> js_error + panel" where
  "assign_text p data key upd s =
     and_then (get_prop p data key) (\<lambda>v. and_then (to_text p v) (\<lambda>t. Inr (upd t s)))"

definition displayResults :: "platform \<Rightarrow> jsval \<Rightarrow> panel \<Rightarrow> js_error option \<times> panel" where
  "displayResults p data =
     run_stmts
       [assign_text p data ''fen'' (\<lambda>t s. s\<lparr>fenText := t\<rparr>),
        assign_text p data ''white_material'' (\<lambda>t s. s\<lparr>whiteMaterial := t\<rparr>),
        assign_text p data ''black_material'' (\<lambda>t s. s\<lparr>blackMaterial := t\<rparr>),
        assign_text p data ''material_difference'' (\<lambda>t s. s\<lparr>materialDiff := t\<rparr>),
        assign_text p data ''turn'' (\<lambda>t s. s\<lparr>turn := t\<rparr>),
        assign_text p data ''eval_line1'' (\<lambda>t s. s\<lparr>evalLine1 := t\<rparr>),
        assign_text p data ''eval_line2'' (\<lambda>t s. s\<lparr>evalLine2 := t\<rparr>),
        (\<lambda>s. and_then (get_prop p data ''attempts'') (\<lambda>v.
              and_then (call_toLocaleString p v) (\<lambda>t. Inr (s\<lparr>attempts := t\<rparr>)))),
        (\<lambda>s. and_then (get_prop p data ''time_seconds'') (\<lambda>v.
              and_then (to_string p v) (\<lambda>t. Inr (s\<lparr>timeSeconds := t @ ''s''\<rparr>)))),
        (\<lambda>s. and_then (get_prop p data ''fen'') (\<lambda>v.
              and_then (to_string p v) (\<lambda>fen.
              and_then (encodeURIComponent p fen) (\<lambda>fenEncoded.
                Inr (s\<lparr>lichessLink_href := ''https://lichess.org/analysis/'' @ fenEncoded,
                       chesscomLink_href := ''https://www.chess.com/analysis?fen='' @ fenEncoded\<rparr>))))),
        (\<lambda>s. Inr (s\<lparr>resultsDiv_class := classList_remove ''hidden'' (resultsDiv_class s)\<rparr>))]"

definition generate_request :: "platform \<Rightarrow> jsnum \<Rightarrow> jsnum \<Rightarrow> jsnum \<Rightarrow> request" where
  "generate_request p targetMin targetMax maxAttempts =
     \<lparr>url = API_URL p @ ''/generate'',
      http_method = ''POST'',
      headers = [(''Content-Type'', ''application/json'')],
      credentials = None,
      body = Some (Obj [(''target_min'', Num targetMin),
                        (''target_max'', Num targetMax),
                        (''max_attempts'', Num maxAttempts)])\<rparr>"

text \<open>The \<^verbatim>\<open>try\<close> block once the two promises have settled.\<close>

definition try_block :: "platform \<Rightarrow> fetch_outcome \<Rightarrow> panel \<Rightarrow> js_error option \<times> panel" where
  "try_block p outcome s =
     (case outcome of
        NeverSettles \<Rightarrow> (None, s)
      | Rejects e \<Rightarrow> (Some e, s)
      | Resolves result \<Rightarrow>
          (case get_prop p result ''success'' of
             Inl e \<Rightarrow> (Some e, s)
           | Inr success \<Rightarrow>
               if truthy success then
                 (case get_prop p result ''data'' of
                    Inl e \<Rightarrow> (Some e, s)
                  | Inr data \<Rightarrow>
                      (case displayResults p data s of
                         (Some e, s') \<Rightarrow> (Some e, s')
                       | (None, s') \<Rightarrow> (None, showStatus success_message ''success'' s')))
               else
                 (case and_then (get_prop p result ''error'') (to_string p) of
                    Inl e \<Rightarrow> (Some e, s)
                  | Inr err \<Rightarrow> (None, showStatus (server_error_message err) ''error'' s))))"

definition catch_block :: "js_error \<Rightarrow> panel \<Rightarrow> panel" where
  "catch_block e s = showStatus (connection_error_message (message e)) ''error'' s"

definition finally_block :: "panel \<Rightarrow> panel" where
  "finally_block s =
     s\<lparr>generateBtn_disabled := False, btnText_display := ''inline'', btnLoader_display := ''none''\<rparr>"

text \<open>
  What the handler does between the validation and its first \<^verbatim>\<open>await\<close>: the button is
  disabled, the label gives way to the loader, the results panel is hidden, the status
  announces the generation, and the request goes out.
\<close>

definition dispatched :: "platform \<Rightarrow> panel \<Rightarrow> panel" where
  "dispatched p s =
     (let s1 = s\<lparr>generateBtn_disabled := True,
                  btnText_display := ''none'',
                  btnLoader_display := ''inline-block'',
                  resultsDiv_class := classList_add ''hidden'' (resultsDiv_class s)\<rparr>;
          s2 = showStatus in_progress_message ''info'' s1
      in s2\<lparr>requests :=
              requests s2 @ [generate_request p (parseInt (targetMin_value s))
                               (parseInt (targetMax_value s)) (parseInt (maxAttempts_value s))]\<rparr>)"

text \<open>
  The click handler of \<^verbatim>\<open>generateBtn\<close>, from the page as it is at the click to the page
  as the handler leaves it. When the request never settles the handler stays suspended
  at its \<^verbatim>\<open>await\<close>, and the page stays as it was when the request went out.
\<close>

definition onGenerateClicked :: "platform \<Rightarrow> fetch_outcome \<Rightarrow> panel \<Rightarrow> panel" where
  "onGenerateClicked p outcome s =
     (if js_ge (parseInt (targetMin_value s)) (parseInt (targetMax_value s))
      then showStatus invalid_range_message ''error'' s
      else if outcome = NeverSettles then dispatched p s
      else
        (case try_block p outcome (dispatched p s) of
           (None, s') \<Rightarrow> finally_block s'
         | (Some e, s') \<Rightarrow> finally_block (catch_block e s')))"

section \<open>The navigation session widget (\<^verbatim>\<open>navbar.js\<close>)\<close>

text \<open>
  A link of class \<^verbatim>\<open>navbar-link\<close>: its \<^verbatim>\<open>href\<close> attribute (\<^verbatim>\<open>getAttribute\<close> gives \<^verbatim>\<open>null\<close>,
  here \<open>None\<close>, when it has none) and its class list.
\<close>

record nav_link =
  href :: "string option"
  link_class :: "string list"

text \<open>
  What \<^verbatim>\<open>navbar.js\<close> reads and writes: its global \<^verbatim>\<open>navUser\<close>; the five elements of the
  bar, each \<open>None\<close> when the page has no element of that id (the script tests each one
  before it touches it), otherwise the property the script sets; the links; the path of
  the page; the target of a navigation the script has asked for; the local storage; the
  calls of \<^verbatim>\<open>fetch\<close>, the alerts and the console errors so far, and how often the page's
  \<^verbatim>\<open>setPlayerOffline\<close> has been called.
\<close>

record page =
  navUser :: jsval
  navUserInfo_display :: "string option"
  navLogoutBtn_display :: "string option"
  navLoginBtn_display :: "string option"
  navUsername_textContent :: "string option"
  navElo_textContent :: "string option"
  navbar_links :: "nav_link list"
  pathname :: string
  navigated_to :: "string option"
  localStorage :: "(string \<times> string) list"
  fetched :: "request list"
  alerts :: "string list"
  console_errors :: "(string \<times> js_error) list"
  offline_calls :: nat

text \<open>The \<^verbatim>\<open>API_URL\<close> of \<^verbatim>\<open>navbar.js\<close>, which has no \<^verbatim>\<open>/api\<close> at its end.\<close>

definition navbar_API_URL :: "platform \<Rightarrow> string" where
  "navbar_API_URL p =
     (if hostname p = ''localhost'' \<or> hostname p = ''127.0.0.1''
      then ''http://localhost:5000''
      else ''http://chessishard-env-env.eba-f8bxehfn.eu-west-1.elasticbeanstalk.com'')"

text \<open>\<^verbatim>\<open>if (el) el.style.display = d\<close>: nothing happens to an element the page lacks.\<close>

definition set_if_present :: "string \<Rightarrow> string option \<Rightarrow> string option" where
  "set_if_present d el = (case el of None \<Rightarrow> None | Some _ \<Rightarrow> Some d)"

definition showAuthenticatedNavbar :: "platform \<Rightarrow> jsval \<Rightarrow> page \<Rightarrow> js_error option \<times> page" where
  "showAuthenticatedNavbar p user =
     run_stmts
       [(\<lambda>w. Inr (w\<lparr>navUserInfo_display := set_if_present ''flex'' (navUserInfo_display w)\<rparr>)),
        (\<lambda>w. Inr (w\<lparr>navLogoutBtn_display := set_if_present ''inline-block'' (navLogoutBtn_display w)\<rparr>)),
        (\<lambda>w. Inr (w\<lparr>navLoginBtn_display := set_if_present ''none'' (navLoginBtn_display w)\<rparr>)),
        (\<lambda>w. case navUsername_textContent w of
                None \<Rightarrow> Inr w
              | Some _ \<Rightarrow>
                  and_then (get_prop p user ''username'') (\<lambda>v.
                  and_then (to_text p v) (\<lambda>t. Inr (w\<lparr>navUsername_textContent := Some t\<rparr>)))),
        (\<lambda>w. case navElo_textContent w of
                None \<Rightarrow> Inr w
              | Some _ \<Rightarrow>
                  and_then (get_prop p user ''elo'') (\<lambda>v.
                  and_then (to_string p v) (\<lambda>t. Inr (w\<lparr>navElo_textContent := Some (''ELO: '' @ t)\<rparr>))))]"

definition showUnauthenticatedNavbar :: "page \<Rightarrow> page" where
  "showUnauthenticatedNavbar w =
     w\<lparr>navUserInfo_display := set_if_present ''none'' (navUserInfo_display w),
       navLogoutBtn_display := set_if_present ''none'' (navLogoutBtn_display w),
       navLoginBtn_display := set_if_present ''inline-block'' (navLoginBtn_display w)\<rparr>"

definition session_request :: "platform \<Rightarrow> request" where
  "session_request p =
     \<lparr>url = navbar_API_URL p @ ''/api/auth/me'',
      http_method = ''GET'',
      headers = [],
      credentials = Some ''include'',
      body = None\<rparr>"

text \<open>The \<^verbatim>\<open>try\<close> block of \<^verbatim>\<open>initNavbar\<close> once the two promises have settled.\<close>

definition initNavbar_try :: "platform \<Rightarrow> fetch_outcome \<Rightarrow> page \<Rightarrow> js_error option \<times> page" where
  "initNavbar_try p outcome w =
     (case outcome of
        NeverSettles \<Rightarrow> (None, w)
      | Rejects e \<Rightarrow> (Some e, w)
      | Resolves data \<Rightarrow>
          (case get_prop p data ''success'' of
             Inl e \<Rightarrow> (Some e, w)
           | Inr success \<Rightarrow>
               if truthy success then
                 (case get_prop p data ''user'' of
                    Inl e \<Rightarrow> (Some e, w)
                  | Inr user \<Rightarrow> showAuthenticatedNavbar p user (w\<lparr>navUser := user\<rparr>))
               else (None, showUnauthenticatedNavbar w)))"

definition initNavbar_label :: string where
  "initNavbar_label = cross_mark @ '' Erreur init navbar:''"

definition initNavbar :: "platform \<Rightarrow> fetch_outcome \<Rightarrow> page \<Rightarrow> page" where
  "initNavbar p outcome w =
     (let w1 = w\<lparr>fetched := fetched w @ [session_request p]\<rparr>
      in if outcome = NeverSettles then w1
         else
           (case initNavbar_try p outcome w1 of
              (None, w2) \<Rightarrow> w2
            | (Some e, w2) \<Rightarrow>
                showUnauthenticatedNavbar
                  (w2\<lparr>console_errors := console_errors w2 @ [(initNavbar_label, e)]\<rparr>)))"

subsection \<open>Logout\<close>

text \<open>
  The page's \<^verbatim>\<open>setPlayerOffline\<close>: absent (or not a function), or a function whose awaited
  call returns, throws, or never settles.
\<close>

datatype hook = NoHook | HookReturns | HookThrows js_error | HookNeverSettles

definition logout_request :: "platform \<Rightarrow> request" where
  "logout_request p =
     \<lparr>url = navbar_API_URL p @ ''/api/auth/logout'',
      http_method = ''POST'',
      headers = [],
      credentials = Some ''include'',
      body = None\<rparr>"

definition logout_label :: string where
  "logout_label = cross_mark @ '' Erreur:''"

definition logout_failed_message :: "string \<Rightarrow> string" where
  "logout_failed_message err = ''Erreur de d'' @ e_acute @ ''connexion: '' @ err"

definition logout_catch :: "js_error \<Rightarrow> page \<Rightarrow> page" where
  "logout_catch e w =
     w\<lparr>alerts := alerts w @ [''Erreur de connexion au serveur''],
       console_errors := console_errors w @ [(logout_label, e)]\<rparr>"

text \<open>The \<^verbatim>\<open>try\<close> block of \<^verbatim>\<open>handleNavLogout\<close> from the call of \<^verbatim>\<open>fetch\<close> on.\<close>

definition logout_fetch :: "platform \<Rightarrow> fetch_outcome \<Rightarrow> page \<Rightarrow> page" where
  "logout_fetch p outcome w =
     (let w1 = w\<lparr>fetched := fetched w @ [logout_request p]\<rparr>
      in case outcome of
           NeverSettles \<Rightarrow> w1
         | Rejects e \<Rightarrow> logout_catch e w1
         | Resolves data \<Rightarrow>
             (case get_prop p data ''success'' of
                Inl e \<Rightarrow> logout_catch e w1
              | Inr success \<Rightarrow>
                  if truthy success
                  then w1\<lparr>localStorage := [], navigated_to := Some ''auth.html''\<rparr>
                  else
                    (case and_then (get_prop p data ''error'') (to_string p) of
                       Inl e \<Rightarrow> logout_catch e w1
                     | Inr err \<Rightarrow> w1\<lparr>alerts := alerts w1 @ [logout_failed_message err]\<rparr>)))"

text \<open>
  \<^verbatim>\<open>handleNavLogout\<close>, given the answer to the \<^verbatim>\<open>confirm\<close> prompt, the page's hook and how
  the logout request ends.
\<close>

definition handleNavLogout :: "platform \<Rightarrow> bool \<Rightarrow> hook \<Rightarrow> fetch_outcome \<Rightarrow> page \<Rightarrow> page" where
  "handleNavLogout p confirmed setPlayerOffline outcome w =
     (if \<not> confirmed then w
      else
        (case setPlayerOffline of
           NoHook \<Rightarrow> logout_fetch p outcome w
         | HookReturns \<Rightarrow> logout_fetch p outcome (w\<lparr>offline_calls := Suc (offline_calls w)\<rparr>)
         | HookThrows e \<Rightarrow> logout_catch e (w\<lparr>offline_calls := Suc (offline_calls w)\<rparr>)
         | HookNeverSettles \<Rightarrow> w\<lparr>offline_calls := Suc (offline_calls w)\<rparr>))"

subsection \<open>The active link\<close>

text \<open>\<^verbatim>\<open>s.split(c)\<close>: the pieces between the occurrences of \<open>c\<close>, at least one piece.\<close>

fun split_on :: "char \<Rightarrow> string \<Rightarrow> string list" where
  "split_on c [] = [[]]"
| "split_on c (x # xs) =
     (if x = c then [] # split_on c xs
      else (case split_on c xs of [] \<Rightarrow> [[x]] | y # ys \<Rightarrow> (x # y) # ys))"

text \<open>\<^verbatim>\<open>window.location.pathname.split('/').pop() || 'index.html'\<close>\<close>

definition currentPage :: "string \<Rightarrow> string" where
  "currentPage path =
     (let name = last (split_on CHR ''/'' path) in if name = [] then ''index.html'' else name)"

definition mark_link :: "string \<Rightarrow> nav_link \<Rightarrow> nav_link" where
  "mark_link current link =
     (let removed = link\<lparr>link_class := classList_remove ''active'' (link_class link)\<rparr>
      in if href link = Some current
            \<or> (current = [] \<and> href link = Some ''index.html'')
            \<or> (current = ''/'' \<and> href link = Some ''index.html'')
         then removed\<lparr>link_class := classList_add ''active'' (link_class removed)\<rparr>
         else removed)"

definition setActiveNavLink :: "page \<Rightarrow> page" where
  "setActiveNavLink w =
     w\<lparr>navbar_links := map (mark_link (currentPage (pathname w))) (navbar_links w)\<rparr>"

section \<open>Pages and answers for the examples\<close>

text \<open>
  A platform for the examples: a page served from \<^verbatim>\<open>localhost\<close>, in an English locale
  that groups the digits of an integer in threes. The examples hold no other number.
\<close>

fun group3 :: "string \<Rightarrow> string" where
  "group3 (a # b # c # d # rest) = a # b # c # CHR '','' # group3 (d # rest)"
| "group3 ds = ds"

definition en_US_integer :: "int \<Rightarrow> string" where
  "en_US_integer i = (if i < 0 then ''-'' else []) @ rev (group3 (rev (decimal_digits \<bar>i\<bar>)))"

definition test_platform :: platform where
  "test_platform =
     \<lparr>hostname = ''localhost'',
      floatToString = (\<lambda>q. ''(not an integer)''),
      toLocaleString = (\<lambda>v. case v of Num (Fin q) \<Rightarrow> Inr (en_US_integer \<lfloor>q\<rfloor>) | _ \<Rightarrow> Inr ''(not a number)''),
      engineMessage = (\<lambda>kind. ''(message of a '' @ kind @ '')'')\<rparr>"

text \<open>The panel as the page loads it, with the three fields as given.\<close>

definition idle_panel :: "string \<Rightarrow> string \<Rightarrow> string \<Rightarrow> panel" where
  "idle_panel tmin tmax attempts_text =
     \<lparr>targetMin_value = tmin,
      targetMax_value = tmax,
      maxAttempts_value = attempts_text,
      generateBtn_disabled = False,
      btnText_display = ''inline'',
      btnLoader_display = ''none'',
      statusDiv_textContent = [],
      statusDiv_class = [''status'', ''hidden''],
      resultsDiv_class = [''results'', ''hidden''],
      fenText = [],
      whiteMaterial = [],
      blackMaterial = [],
      materialDiff = [],
      turn = [],
      evalLine1 = [],
      evalLine2 = [],
      attempts = [],
      timeSeconds = [],
      lichessLink_href = ''#'',
      chesscomLink_href = ''#'',
      requests = []\<rparr>"

text \<open>A report as the backend sends it, and the answer that carries it.\<close>

definition start_fen :: string where
  "start_fen = ''rnbqkbnr/pppppppp/8/8/8/8/PPPPPPPP/RNBQKBNR w KQkq - 0 1''"

definition test_report :: jsval where
  "test_report =
     Obj [(''fen'', Str start_fen),
          (''white_material'', Num (Fin 39)),
          (''black_material'', Num (Fin 37)),
          (''material_difference'', Num (Fin 2)),
          (''turn'', Str ''white''),
          (''eval_line1'', Str ''+0.31''),
          (''eval_line2'', Str ''+0.27''),
          (''attempts'', Num (Fin 12345)),
          (''time_seconds'', Num (Fin 3))]"

definition success_answer :: jsval where
  "success_answer = Obj [(''success'', Bool True), (''data'', test_report)]"

definition failure_answer :: jsval where
  "failure_answer = Obj [(''success'', Bool False), (''error'', Str ''Stockfish not found'')]"

definition failed_to_fetch :: js_error where
  "failed_to_fetch = JsError ''TypeError'' ''Failed to fetch''"

definition truncated_answer :: jsval where
  "truncated_answer = Obj [(''success'', Bool True)]"

text \<open>
  A page with the whole bar (no inline style yet, no text yet), two links, and something
  in the local storage.
\<close>

definition blank_page :: "string \<Rightarrow> page" where
  "blank_page path =
     \<lparr>navUser = Null,
      navUserInfo_display = Some [],
      navLogoutBtn_display = Some [],
      navLoginBtn_display = Some [],
      navUsername_textContent = Some [],
      navElo_textContent = Some [],
      navbar_links =
        [\<lparr>href = Some ''index.html'', link_class = [''navbar-link'']\<rparr>,
         \<lparr>href = Some ''game.html'', link_class = [''navbar-link'', ''active'']\<rparr>],
      pathname = path,
      navigated_to = None,
      localStorage = [(''theme'', ''dark'')],
      fetched = [],
      alerts = [],
      console_errors = [],
      offline_calls = 0\<rparr>"

definition alice_answer :: jsval where
  "alice_answer =
     Obj [(''success'', Bool True),
          (''user'', Obj [(''username'', Str ''alice''), (''elo'', Num (Fin 1500))])]"

definition logged_out_answer :: jsval where
  "logged_out_answer = Obj [(''success'', Bool False), (''error'', Str ''Not authenticated'')]"

definition hook_failure :: js_error where
  "hook_failure = JsError ''Error'' ''socket closed''"

section \<open>Properties of the generation panel\<close>

subsection \<open>Evaluations used below\<close>

lemma status_class_error:
  "classList_remove ''hidden'' (class_tokens (''status '' @ ''error'')) = [''status'', ''error'']"
  by (simp add: classList_remove_def class_tokens_def)

lemma status_class_info:
  "classList_remove ''hidden'' (class_tokens (''status '' @ ''info'')) = [''status'', ''info'']"
  by (simp add: classList_remove_def class_tokens_def)

lemma status_class_success:
  "classList_remove ''hidden'' (class_tokens (''status '' @ ''success'')) = [''status'', ''success'']"
  by (simp add: classList_remove_def class_tokens_def)

lemma showStatus_error:
  "showStatus msg ''error'' s =
     s\<lparr>statusDiv_textContent := msg, statusDiv_class := [''status'', ''error'']\<rparr>"
  using status_class_error by (simp add: showStatus_def)

lemma showStatus_info:
  "showStatus msg ''info'' s =
     s\<lparr>statusDiv_textContent := msg, statusDiv_class := [''status'', ''info'']\<rparr>"
  using status_class_info by (simp add: showStatus_def)

lemma showStatus_success:
  "showStatus msg ''success'' s =
     s\<lparr>statusDiv_textContent := msg, statusDiv_class := [''status'', ''success'']\<rparr>"
  using status_class_success by (simp add: showStatus_def)

lemmas parseInt_unfold =
  parseInt_def trim_start.simps ws_len_def digit_value_def digits_value_def
  nearest_double_def bit_length.simps Let_def

lemma parseInt_10: "parseInt ''10'' = Fin 10"
  by (simp add: parseInt_unfold)

lemma parseInt_50: "parseInt ''50'' = Fin 50"
  by (simp add: parseInt_unfold)

lemma parseInt_100: "parseInt ''100'' = Fin 100"
  by (simp add: parseInt_unfold)

lemma parseInt_1000: "parseInt ''1000'' = Fin 1000"
  by (simp add: parseInt_unfold)

lemma parseInt_abc: "parseInt ''abc'' = NaN"
  by (simp add: parseInt_unfold)

lemma js_ge_NaN: "\<not> js_ge NaN b" "\<not> js_ge a NaN"
  by (cases a; simp add: js_ge_def)+

lemma js_ge_iff:
  "js_ge a b \<longleftrightarrow> a \<noteq> NaN \<and> b \<noteq> NaN \<and> js_lt a b = Some False"
  by (cases a; cases b; simp add: js_ge_def)

subsection \<open>What the handler never touches\<close>

lemma run_stmts_preserves:
  assumes "\<And>c s s'. c \<in> set cs \<Longrightarrow> c s = Inr s' \<Longrightarrow> f s' = f s"
  shows "f (snd (run_stmts cs s)) = f s"
  using assms
proof (induction cs arbitrary: s)
  case Nil
  then show ?case by simp
next
  case (Cons c cs)
  show ?case
  proof (cases "c s")
    case (Inl e)
    then show ?thesis by simp
  next
    case (Inr s')
    have "f (snd (run_stmts cs s')) = f s'"
      by (rule Cons.IH) (auto intro: Cons.prems)
    moreover have "f s' = f s"
      using Cons.prems [of c s s'] Inr by simp
    ultimately show ?thesis using Inr by simp
  qed
qed

lemma displayResults_requests:
  assumes "displayResults p data s = (r, s')"
  shows "requests s' = requests s"
proof -
  have "requests (snd (displayResults p data s)) = requests s"
    unfolding displayResults_def
    by (rule run_stmts_preserves) (auto simp: assign_text_def and_then_def split: sum.splits)
  with assms show ?thesis by simp
qed

lemma try_block_requests:
  "try_block p outcome s = (r, s') \<Longrightarrow> requests s' = requests s"
  by (auto simp: try_block_def showStatus_def dest: displayResults_requests
      split: fetch_outcome.splits sum.splits prod.splits option.splits if_splits)

lemma requests_dispatched:
  "requests (dispatched p s) =
     requests s @ [generate_request p (parseInt (targetMin_value s))
                     (parseInt (targetMax_value s)) (parseInt (maxAttempts_value s))]"
  by (simp add: dispatched_def Let_def showStatus_def)

lemma requests_after_dispatch:
  assumes "\<not> js_ge (parseInt (targetMin_value s)) (parseInt (targetMax_value s))"
  shows "requests (onGenerateClicked p outcome s) = requests (dispatched p s)"
proof (cases "outcome = NeverSettles")
  case True
  with assms show ?thesis by (simp add: onGenerateClicked_def)
next
  case False
  obtain r s' where tb: "try_block p outcome (dispatched p s) = (r, s')"
    by (cases "try_block p outcome (dispatched p s)") auto
  have "requests s' = requests (dispatched p s)"
    by (rule try_block_requests [OF tb])
  with assms False tb show ?thesis
    by (cases r) (simp_all add: onGenerateClicked_def finally_block_def catch_block_def showStatus_def)
qed

subsection \<open>Validation\<close>

text \<open>
  C1. When \<^verbatim>\<open>targetMin >= targetMax\<close> holds for the parsed fields, the click handler
  shows the error status and does nothing else: the page it leaves is the page it found
  with the text and class of the status element replaced, so no request has been
  issued, the button is as enabled as it was, label and loader are as visible as they
  were, and the class list of the results panel is unchanged.
\<close>

theorem invalid_range_only_shows_error:
  assumes "js_ge (parseInt (targetMin_value s)) (parseInt (targetMax_value s))"
  shows "onGenerateClicked p outcome s =
           s\<lparr>statusDiv_textContent := invalid_range_message,
             statusDiv_class := [''status'', ''error'']\<rparr>
         \<and> requests (onGenerateClicked p outcome s) = requests s
         \<and> generateBtn_disabled (onGenerateClicked p outcome s) = generateBtn_disabled s
         \<and> btnText_display (onGenerateClicked p outcome s) = btnText_display s
         \<and> btnLoader_display (onGenerateClicked p outcome s) = btnLoader_display s
         \<and> resultsDiv_class (onGenerateClicked p outcome s) = resultsDiv_class s"
proof -
  have eq: "onGenerateClicked p outcome s =
           s\<lparr>statusDiv_textContent := invalid_range_message,
             statusDiv_class := [''status'', ''error'']\<rparr>"
    using assms by (simp add: onGenerateClicked_def showStatus_error)
  show ?thesis
    by (simp add: eq)
qed

theorem invalid_range_only_shows_error_witness:
  "js_ge (parseInt ''100'') (parseInt ''50'')
   \<and> onGenerateClicked test_platform (Resolves success_answer) (idle_panel ''100'' ''50'' ''1000'')
       = (idle_panel ''100'' ''50'' ''1000'')
           \<lparr>statusDiv_textContent := invalid_range_message,
            statusDiv_class := [''status'', ''error'']\<rparr>
   \<and> requests (onGenerateClicked test_platform (Resolves success_answer)
         (idle_panel ''100'' ''50'' ''1000'')) = []
   \<and> \<not> generateBtn_disabled
         (onGenerateClicked test_platform (Resolves success_answer) (idle_panel ''100'' ''50'' ''1000''))
   \<and> btnLoader_display
         (onGenerateClicked test_platform (Resolves success_answer) (idle_panel ''100'' ''50'' ''1000''))
       = ''none''"
proof -
  have ge: "js_ge (parseInt (targetMin_value (idle_panel ''100'' ''50'' ''1000'')))
                  (parseInt (targetMax_value (idle_panel ''100'' ''50'' ''1000'')))"
    by (simp add: idle_panel_def parseInt_100 parseInt_50 js_ge_def)
  have ge': "js_ge (parseInt ''100'') (parseInt ''50'')"
    by (simp add: parseInt_100 parseInt_50 js_ge_def)
  from invalid_range_only_shows_error [OF ge, of test_platform "Resolves success_answer"] ge'
  show ?thesis by (simp add: idle_panel_def)
qed

text \<open>
  C2, as the claim states it, fails: a field that parses to \<^verbatim>\<open>NaN\<close> is not caught. With
  \<^verbatim>\<open>abc\<close> as the minimum, \<^verbatim>\<open>NaN >= 100\<close> is false, the request goes out with \<^verbatim>\<open>NaN\<close> as
  \<^verbatim>\<open>target_min\<close>, and the status that remains is the one of the failed request, not the
  validation error.
\<close>

theorem malformed_input_is_dispatched:
  "parseInt ''abc'' = NaN
   \<and> requests (onGenerateClicked test_platform (Rejects failed_to_fetch)
        (idle_panel ''abc'' ''100'' ''1000''))
       = [generate_request test_platform NaN (Fin 100) (Fin 1000)]
   \<and> statusDiv_textContent (onGenerateClicked test_platform (Rejects failed_to_fetch)
        (idle_panel ''abc'' ''100'' ''1000''))
       = connection_error_message ''Failed to fetch''"
  by (simp add: onGenerateClicked_def try_block_def catch_block_def finally_block_def
      dispatched_def showStatus_error showStatus_info idle_panel_def failed_to_fetch_def
      parseInt_abc parseInt_100 parseInt_1000 js_ge_NaN)

text \<open>
  C2, amended. The validation is the comparison \<^verbatim>\<open>targetMin >= targetMax\<close> and nothing
  else. It holds exactly when both targets parsed to numbers that are out of order;
  the handler then shows the error status, changes nothing else and issues no request.
  Whenever it does not hold, in particular when one of the targets parsed to \<^verbatim>\<open>NaN\<close>,
  the request is issued with the three parsed values as they are; the third field is
  never looked at.
\<close>

theorem validation_is_the_range_check:
  "(js_ge (parseInt (targetMin_value s)) (parseInt (targetMax_value s))
      \<longleftrightarrow> parseInt (targetMin_value s) \<noteq> NaN \<and> parseInt (targetMax_value s) \<noteq> NaN
          \<and> js_lt (parseInt (targetMin_value s)) (parseInt (targetMax_value s)) = Some False)
   \<and> (js_ge (parseInt (targetMin_value s)) (parseInt (targetMax_value s))
      \<longrightarrow> onGenerateClicked p outcome s =
            s\<lparr>statusDiv_textContent := invalid_range_message,
              statusDiv_class := [''status'', ''error'']\<rparr>)
   \<and> (\<not> js_ge (parseInt (targetMin_value s)) (parseInt (targetMax_value s))
      \<longrightarrow> requests (onGenerateClicked p outcome s) =
            requests s @ [generate_request p (parseInt (targetMin_value s))
                            (parseInt (targetMax_value s)) (parseInt (maxAttempts_value s))])"
proof (intro conjI impI)
  show "js_ge (parseInt (targetMin_value s)) (parseInt (targetMax_value s))
      \<longleftrightarrow> parseInt (targetMin_value s) \<noteq> NaN \<and> parseInt (targetMax_value s) \<noteq> NaN
          \<and> js_lt (parseInt (targetMin_value s)) (parseInt (targetMax_value s)) = Some False"
    by (rule js_ge_iff)
next
  assume "js_ge (parseInt (targetMin_value s)) (parseInt (targetMax_value s))"
  then show "onGenerateClicked p outcome s =
            s\<lparr>statusDiv_textContent := invalid_range_message,
              statusDiv_class := [''status'', ''error'']\<rparr>"
    by (simp add: onGenerateClicked_def showStatus_error)
next
  assume "\<not> js_ge (parseInt (targetMin_value s)) (parseInt (targetMax_value s))"
  then show "requests (onGenerateClicked p outcome s) =
            requests s @ [generate_request p (parseInt (targetMin_value s))
                            (parseInt (targetMax_value s)) (parseInt (maxAttempts_value s))]"
    by (simp add: requests_after_dispatch requests_dispatched)
qed

theorem validation_is_the_range_check_witness:
  "js_ge (parseInt ''100'') (parseInt ''50'')
   \<and> onGenerateClicked test_platform NeverSettles (idle_panel ''100'' ''50'' ''abc'')
       = (idle_panel ''100'' ''50'' ''abc'')
           \<lparr>statusDiv_textContent := invalid_range_message,
            statusDiv_class := [''status'', ''error'']\<rparr>
   \<and> \<not> js_ge (parseInt ''10'') (parseInt ''abc'')
   \<and> requests (onGenerateClicked test_platform (Resolves failure_answer)
        (idle_panel ''10'' ''abc'' ''abc''))
       = [generate_request test_platform (Fin 10) NaN NaN]"
proof -
  have ge: "js_ge (parseInt ''100'') (parseInt ''50'')"
    by (simp add: parseInt_100 parseInt_50 js_ge_def)
  have nge: "\<not> js_ge (parseInt ''10'') (parseInt ''abc'')"
    by (simp add: parseInt_abc js_ge_NaN)
  from validation_is_the_range_check
         [of "idle_panel ''100'' ''50'' ''abc''" test_platform NeverSettles] ge
  have a: "onGenerateClicked test_platform NeverSettles (idle_panel ''100'' ''50'' ''abc'')
       = (idle_panel ''100'' ''50'' ''abc'')
           \<lparr>statusDiv_textContent := invalid_range_message,
            statusDiv_class := [''status'', ''error'']\<rparr>"
    by (simp add: idle_panel_def)
  from validation_is_the_range_check
         [of "idle_panel ''10'' ''abc'' ''abc''" test_platform "Resolves failure_answer"] nge
  have b: "requests (onGenerateClicked test_platform (Resolves failure_answer)
        (idle_panel ''10'' ''abc'' ''abc''))
       = [generate_request test_platform (Fin 10) NaN NaN]"
    by (simp add: idle_panel_def parseInt_10 parseInt_abc)
  from ge a nge b show ?thesis by simp
qed

subsection \<open>The three ways a dispatched request ends\<close>

lemma displayResults_report:
  assumes "get_prop p data ''fen'' = Inr (Str fen)"
    and "\<not> lone_surrogate fen"
    and "get_prop p data ''white_material'' = Inr (Num wm)"
    and "get_prop p data ''black_material'' = Inr (Num bm)"
    and "get_prop p data ''material_difference'' = Inr (Num md)"
    and "get_prop p data ''turn'' = Inr (Str side)"
    and "get_prop p data ''eval_line1'' = Inr (Str e1)"
    and "get_prop p data ''eval_line2'' = Inr (Str e2)"
    and "get_prop p data ''attempts'' = Inr (Num n)"
    and "toLocaleString p (Num n) = Inr shown"
    and "get_prop p data ''time_seconds'' = Inr (Num secs)"
  shows "displayResults p data s =
           (None,
            s\<lparr>fenText := fen,
              whiteMaterial := number_to_string p wm,
              blackMaterial := number_to_string p bm,
              materialDiff := number_to_string p md,
              turn := side,
              evalLine1 := e1,
              evalLine2 := e2,
              attempts := shown,
              timeSeconds := number_to_string p secs @ ''s'',
              lichessLink_href := ''https://lichess.org/analysis/'' @ percent_encode fen,
              chesscomLink_href := ''https://www.chess.com/analysis?fen='' @ percent_encode fen,
              resultsDiv_class := classList_remove ''hidden'' (resultsDiv_class s)\<rparr>)"
  using assms
  by (simp add: displayResults_def assign_text_def and_then_def to_text_def
      call_toLocaleString_def encodeURIComponent_def)

lemma hidden_removed: "''hidden'' \<notin> set (classList_remove ''hidden'' cs)"
  by (simp add: classList_remove_def)

text \<open>
  C3. A successful answer whose \<^verbatim>\<open>data\<close> is a report (strings and numbers where the
  data model has them, the FEN free of unpaired surrogates) is rendered field by field:
  the strings as they are, the numbers as JavaScript prints them, \<^verbatim>\<open>attempts\<close> as
  \<^verbatim>\<open>toLocaleString()\<close> of the locale gives it, \<^verbatim>\<open>time_seconds\<close> followed by \<^verbatim>\<open>s\<close>; both
  links end in the percent-encoded FEN; the results panel loses its \<^verbatim>\<open>hidden\<close> class
  and the status is the success message. Everything else is as the dispatch left it,
  but for the button, label and loader, which are back to idle.
\<close>

theorem successful_answer_is_rendered:
  assumes "\<not> js_ge (parseInt (targetMin_value s)) (parseInt (targetMax_value s))"
    and "get_prop p result ''success'' = Inr success"
    and "truthy success"
    and "get_prop p result ''data'' = Inr data"
    and "get_prop p data ''fen'' = Inr (Str fen)"
    and "\<not> lone_surrogate fen"
    and "get_prop p data ''white_material'' = Inr (Num wm)"
    and "get_prop p data ''black_material'' = Inr (Num bm)"
    and "get_prop p data ''material_difference'' = Inr (Num md)"
    and "get_prop p data ''turn'' = Inr (Str side)"
    and "get_prop p data ''eval_line1'' = Inr (Str e1)"
    and "get_prop p data ''eval_line2'' = Inr (Str e2)"
    and "get_prop p data ''attempts'' = Inr (Num n)"
    and "toLocaleString p (Num n) = Inr shown"
    and "get_prop p data ''time_seconds'' = Inr (Num secs)"
  shows "onGenerateClicked p (Resolves result) s =
           (dispatched p s)
             \<lparr>fenText := fen,
              whiteMaterial := number_to_string p wm,
              blackMaterial := number_to_string p bm,
              materialDiff := number_to_string p md,
              turn := side,
              evalLine1 := e1,
              evalLine2 := e2,
              attempts := shown,
              timeSeconds := number_to_string p secs @ ''s'',
              lichessLink_href := ''https://lichess.org/analysis/'' @ percent_encode fen,
              chesscomLink_href := ''https://www.chess.com/analysis?fen='' @ percent_encode fen,
              resultsDiv_class := classList_remove ''hidden'' (resultsDiv_class (dispatched p s)),
              statusDiv_textContent := success_message,
              statusDiv_class := [''status'', ''success''],
              generateBtn_disabled := False,
              btnText_display := ''inline'',
              btnLoader_display := ''none''\<rparr>
         \<and> ''hidden'' \<notin> set (resultsDiv_class (onGenerateClicked p (Resolves result) s))"
proof -
  have shown: "displayResults p data (dispatched p s) =
           (None,
            (dispatched p s)
             \<lparr>fenText := fen,
              whiteMaterial := number_to_string p wm,
              blackMaterial := number_to_string p bm,
              materialDiff := number_to_string p md,
              turn := side,
              evalLine1 := e1,
              evalLine2 := e2,
              attempts := shown,
              timeSeconds := number_to_string p secs @ ''s'',
              lichessLink_href := ''https://lichess.org/analysis/'' @ percent_encode fen,
              chesscomLink_href := ''https://www.chess.com/analysis?fen='' @ percent_encode fen,
              resultsDiv_class := classList_remove ''hidden'' (resultsDiv_class (dispatched p s))\<rparr>)"
    by (rule displayResults_report) (rule assms)+
  have eq: "onGenerateClicked p (Resolves result) s =
           (dispatched p s)
             \<lparr>fenText := fen,
              whiteMaterial := number_to_string p wm,
              blackMaterial := number_to_string p bm,
              materialDiff := number_to_string p md,
              turn := side,
              evalLine1 := e1,
              evalLine2 := e2,
              attempts := shown,
              timeSeconds := number_to_string p secs @ ''s'',
              lichessLink_href := ''https://lichess.org/analysis/'' @ percent_encode fen,
              chesscomLink_href := ''https://www.chess.com/analysis?fen='' @ percent_encode fen,
              resultsDiv_class := classList_remove ''hidden'' (resultsDiv_class (dispatched p s)),
              statusDiv_textContent := success_message,
              statusDiv_class := [''status'', ''success''],
              generateBtn_disabled := False,
              btnText_display := ''inline'',
              btnLoader_display := ''none''\<rparr>"
    using assms(1-4)
    by (simp add: onGenerateClicked_def try_block_def shown showStatus_success finally_block_def)
  show ?thesis
    by (simp add: eq hidden_removed)
qed

lemma decimal_39: "decimal 39 = ''39''"
  by (simp add: decimal_def decimal_digits.simps digit_char_def)

lemma decimal_37: "decimal 37 = ''37''"
  by (simp add: decimal_def decimal_digits.simps digit_char_def)

lemma decimal_2: "decimal 2 = ''2''"
  by (simp add: decimal_def decimal_digits.simps digit_char_def)

lemma decimal_3: "decimal 3 = ''3''"
  by (simp add: decimal_def decimal_digits.simps digit_char_def)

lemma en_US_12345: "en_US_integer 12345 = ''12,345''"
  by (simp add: en_US_integer_def decimal_digits.simps digit_char_def)

lemma percent_encode_start_fen:
  "percent_encode start_fen =
     ''rnbqkbnr%2Fpppppppp%2F8%2F8%2F8%2F8%2FPPPPPPPP%2FRNBQKBNR%20w%20KQkq%20-%200%201''"
  by (simp add: start_fen_def percent_encode_def percent_byte_def unreserved_def digit_char_def)

lemma start_fen_well_formed: "\<not> lone_surrogate start_fen"
  by (simp add: start_fen_def)

theorem successful_answer_is_rendered_witness:
  "\<not> js_ge (parseInt ''10'') (parseInt ''100'')
   \<and> truthy (Bool True)
   \<and> \<not> lone_surrogate start_fen
   \<and> onGenerateClicked test_platform (Resolves success_answer) (idle_panel ''10'' ''100'' ''1000'') =
       (idle_panel ''10'' ''100'' ''1000'')
         \<lparr>fenText := start_fen,
          whiteMaterial := ''39'',
          blackMaterial := ''37'',
          materialDiff := ''2'',
          turn := ''white'',
          evalLine1 := ''+0.31'',
          evalLine2 := ''+0.27'',
          attempts := ''12,345'',
          timeSeconds := ''3s'',
          lichessLink_href :=
            ''https://lichess.org/analysis/rnbqkbnr%2Fpppppppp%2F8%2F8%2F8%2F8%2FPPPPPPPP%2FRNBQKBNR%20w%20KQkq%20-%200%201'',
          chesscomLink_href :=
            ''https://www.chess.com/analysis?fen=rnbqkbnr%2Fpppppppp%2F8%2F8%2F8%2F8%2FPPPPPPPP%2FRNBQKBNR%20w%20KQkq%20-%200%201'',
          resultsDiv_class := [''results''],
          statusDiv_textContent := success_message,
          statusDiv_class := [''status'', ''success''],
          requests := [generate_request test_platform (Fin 10) (Fin 100) (Fin 1000)]\<rparr>"
proof -
  have valid: "\<not> js_ge (parseInt ''10'') (parseInt ''100'')"
    by (simp add: parseInt_10 parseInt_100 js_ge_def)
  have wf: "\<not> lone_surrogate start_fen"
    by (rule start_fen_well_formed)
  have rendered: "onGenerateClicked test_platform (Resolves success_answer)
            (idle_panel ''10'' ''100'' ''1000'') =
           (dispatched test_platform (idle_panel ''10'' ''100'' ''1000''))
             \<lparr>fenText := start_fen,
              whiteMaterial := number_to_string test_platform (Fin 39),
              blackMaterial := number_to_string test_platform (Fin 37),
              materialDiff := number_to_string test_platform (Fin 2),
              turn := ''white'',
              evalLine1 := ''+0.31'',
              evalLine2 := ''+0.27'',
              attempts := ''12,345'',
              timeSeconds := number_to_string test_platform (Fin 3) @ ''s'',
              lichessLink_href := ''https://lichess.org/analysis/'' @ percent_encode start_fen,
              chesscomLink_href := ''https://www.chess.com/analysis?fen='' @ percent_encode start_fen,
              resultsDiv_class := classList_remove ''hidden''
                 (resultsDiv_class (dispatched test_platform (idle_panel ''10'' ''100'' ''1000''))),
              statusDiv_textContent := success_message,
              statusDiv_class := [''status'', ''success''],
              generateBtn_disabled := False,
              btnText_display := ''inline'',
              btnLoader_display := ''none''\<rparr>"
    using successful_answer_is_rendered
      [of "idle_panel ''10'' ''100'' ''1000''" test_platform success_answer "Bool True"
          test_report start_fen "Fin 39" "Fin 37" "Fin 2" "''white''" "''+0.31''" "''+0.27''"
          "Fin 12345" "''12,345''" "Fin 3"]
      valid wf
    by (simp add: idle_panel_def success_answer_def test_report_def test_platform_def en_US_12345)
  have "onGenerateClicked test_platform (Resolves success_answer) (idle_panel ''10'' ''100'' ''1000'') =
       (idle_panel ''10'' ''100'' ''1000'')
         \<lparr>fenText := start_fen,
          whiteMaterial := ''39'',
          blackMaterial := ''37'',
          materialDiff := ''2'',
          turn := ''white'',
          evalLine1 := ''+0.31'',
          evalLine2 := ''+0.27'',
          attempts := ''12,345'',
          timeSeconds := ''3s'',
          lichessLink_href :=
            ''https://lichess.org/analysis/rnbqkbnr%2Fpppppppp%2F8%2F8%2F8%2F8%2FPPPPPPPP%2FRNBQKBNR%20w%20KQkq%20-%200%201'',
          chesscomLink_href :=
            ''https://www.chess.com/analysis?fen=rnbqkbnr%2Fpppppppp%2F8%2F8%2F8%2F8%2FPPPPPPPP%2FRNBQKBNR%20w%20KQkq%20-%200%201'',
          resultsDiv_class := [''results''],
          statusDiv_textContent := success_message,
          statusDiv_class := [''status'', ''success''],
          requests := [generate_request test_platform (Fin 10) (Fin 100) (Fin 1000)]\<rparr>"
    unfolding rendered
    by (simp add: dispatched_def showStatus_info idle_panel_def number_to_string_def
        decimal_39 decimal_37 decimal_2 decimal_3 percent_encode_start_fen
        classList_add_def classList_remove_def parseInt_10 parseInt_100 parseInt_1000)
  with valid wf show ?thesis by simp
qed

lemma messages_differ: "server_error_message err \<noteq> connection_error_message msg"
  by (simp add: server_error_message_def connection_error_message_def cross_mark_def)

lemma caught_shows_connection_error:
  assumes "\<not> js_ge (parseInt (targetMin_value s)) (parseInt (targetMax_value s))"
    and "outcome \<noteq> NeverSettles"
    and "try_block p outcome (dispatched p s) = (Some e, s')"
  shows "onGenerateClicked p outcome s =
           s'\<lparr>statusDiv_textContent := connection_error_message (message e),
              statusDiv_class := [''status'', ''error''],
              generateBtn_disabled := False,
              btnText_display := ''inline'',
              btnLoader_display := ''none''\<rparr>"
  using assms
  by (simp add: onGenerateClicked_def catch_block_def finally_block_def showStatus_error)

text \<open>
  C4. After a dispatched request, an answer whose \<^verbatim>\<open>success\<close> is falsy and whose \<^verbatim>\<open>error\<close>
  is a string leaves the status showing the cross mark, \<^verbatim>\<open>Erreur:\<close> and that string; a
  request that rejects, and more generally any exception \<open>e\<close> raised in the \<^verbatim>\<open>try\<close>
  block, leaves it showing \<^verbatim>\<open>Erreur de connexion:\<close>, the message of \<open>e\<close> and the hint to
  check that the backend is started. The two wordings never coincide.
\<close>

theorem failure_is_reported:
  assumes "\<not> js_ge (parseInt (targetMin_value s)) (parseInt (targetMax_value s))"
  shows "(get_prop p result ''success'' = Inr success \<and> \<not> truthy success
            \<and> get_prop p result ''error'' = Inr (Str err)
          \<longrightarrow> statusDiv_textContent (onGenerateClicked p (Resolves result) s)
                = cross_mark @ '' Erreur: '' @ err
              \<and> statusDiv_class (onGenerateClicked p (Resolves result) s) = [''status'', ''error''])
       \<and> statusDiv_textContent (onGenerateClicked p (Rejects e) s)
           = cross_mark @ '' Erreur de connexion: '' @ message e @ ''. V'' @ e_acute
             @ ''rifiez que le backend est d'' @ e_acute @ ''marr'' @ e_acute @ ''.''
       \<and> statusDiv_class (onGenerateClicked p (Rejects e) s) = [''status'', ''error'']
       \<and> (outcome \<noteq> NeverSettles \<and> try_block p outcome (dispatched p s) = (Some e', s')
          \<longrightarrow> statusDiv_textContent (onGenerateClicked p outcome s)
                = connection_error_message (message e'))
       \<and> cross_mark @ '' Erreur: '' @ err \<noteq> connection_error_message msg"
proof (intro conjI impI)
  assume a: "get_prop p result ''success'' = Inr success \<and> \<not> truthy success
            \<and> get_prop p result ''error'' = Inr (Str err)"
  with assms have "onGenerateClicked p (Resolves result) s =
      finally_block (showStatus (server_error_message err) ''error'' (dispatched p s))"
    by (simp add: onGenerateClicked_def try_block_def and_then_def)
  then show "statusDiv_textContent (onGenerateClicked p (Resolves result) s)
                = cross_mark @ '' Erreur: '' @ err"
    and "statusDiv_class (onGenerateClicked p (Resolves result) s) = [''status'', ''error'']"
    by (simp_all add: finally_block_def showStatus_error server_error_message_def)
next
  have "try_block p (Rejects e) (dispatched p s) = (Some e, dispatched p s)"
    by (simp add: try_block_def)
  from caught_shows_connection_error [OF assms _ this]
  show "statusDiv_textContent (onGenerateClicked p (Rejects e) s)
           = cross_mark @ '' Erreur de connexion: '' @ message e @ ''. V'' @ e_acute
             @ ''rifiez que le backend est d'' @ e_acute @ ''marr'' @ e_acute @ ''.''"
    and "statusDiv_class (onGenerateClicked p (Rejects e) s) = [''status'', ''error'']"
    by (simp_all add: connection_error_message_def)
next
  assume "outcome \<noteq> NeverSettles \<and> try_block p outcome (dispatched p s) = (Some e', s')"
  then show "statusDiv_textContent (onGenerateClicked p outcome s)
                = connection_error_message (message e')"
    using caught_shows_connection_error [OF assms, of outcome p e' s'] by simp
next
  show "cross_mark @ '' Erreur: '' @ err \<noteq> connection_error_message msg"
    using messages_differ [of err msg] by (simp add: server_error_message_def)
qed

theorem failure_is_reported_witness:
  "\<not> js_ge (parseInt ''10'') (parseInt ''100'')
   \<and> \<not> truthy (Bool False)
   \<and> statusDiv_textContent (onGenerateClicked test_platform (Resolves failure_answer)
        (idle_panel ''10'' ''100'' ''1000''))
       = cross_mark @ '' Erreur: Stockfish not found''
   \<and> statusDiv_textContent (onGenerateClicked test_platform (Rejects failed_to_fetch)
        (idle_panel ''10'' ''100'' ''1000''))
       = cross_mark @ '' Erreur de connexion: Failed to fetch. V'' @ e_acute
         @ ''rifiez que le backend est d'' @ e_acute @ ''marr'' @ e_acute @ ''.''
   \<and> try_block test_platform (Resolves Null) (dispatched test_platform (idle_panel ''10'' ''100'' ''1000''))
       = (Some (type_error test_platform), dispatched test_platform (idle_panel ''10'' ''100'' ''1000''))
   \<and> statusDiv_textContent (onGenerateClicked test_platform (Resolves Null)
        (idle_panel ''10'' ''100'' ''1000''))
       = connection_error_message ''(message of a TypeError)''"
proof -
  have valid: "\<not> js_ge (parseInt (targetMin_value (idle_panel ''10'' ''100'' ''1000'')))
                     (parseInt (targetMax_value (idle_panel ''10'' ''100'' ''1000'')))"
    by (simp add: idle_panel_def parseInt_10 parseInt_100 js_ge_def)
  have valid': "\<not> js_ge (parseInt ''10'') (parseInt ''100'')"
    by (simp add: parseInt_10 parseInt_100 js_ge_def)
  have thrown: "try_block test_platform (Resolves Null)
                  (dispatched test_platform (idle_panel ''10'' ''100'' ''1000''))
       = (Some (type_error test_platform), dispatched test_platform (idle_panel ''10'' ''100'' ''1000''))"
    by (simp add: try_block_def)
  from failure_is_reported
         [OF valid, of test_platform failure_answer "Bool False" "''Stockfish not found''"
            failed_to_fetch "Resolves Null" "type_error test_platform"
            "dispatched test_platform (idle_panel ''10'' ''100'' ''1000'')"]
       thrown valid'
  show ?thesis
    by (simp add: failure_answer_def failed_to_fetch_def type_error_def test_platform_def)
qed

text \<open>
  C5. Once a request has been dispatched and has settled, whether it was answered with
  success, answered with a failure, rejected, or followed by an exception in the
  rendering, the handler ends with the button enabled, the label shown and the loader
  hidden.
\<close>

theorem settled_request_restores_idle:
  assumes "\<not> js_ge (parseInt (targetMin_value s)) (parseInt (targetMax_value s))"
    and "outcome \<noteq> NeverSettles"
  shows "\<not> generateBtn_disabled (onGenerateClicked p outcome s)
         \<and> btnText_display (onGenerateClicked p outcome s) = ''inline''
         \<and> btnLoader_display (onGenerateClicked p outcome s) = ''none''"
proof -
  obtain r s' where tb: "try_block p outcome (dispatched p s) = (r, s')"
    by (cases "try_block p outcome (dispatched p s)") auto
  show ?thesis
  proof (cases r)
    case None
    with assms tb have "onGenerateClicked p outcome s = finally_block s'"
      by (simp add: onGenerateClicked_def)
    then show ?thesis by (simp add: finally_block_def)
  next
    case (Some e)
    with assms tb have "onGenerateClicked p outcome s = finally_block (catch_block e s')"
      by (simp add: onGenerateClicked_def)
    then show ?thesis by (simp add: finally_block_def)
  qed
qed

theorem settled_request_restores_idle_witness:
  "\<not> js_ge (parseInt ''10'') (parseInt ''100'')
   \<and> Resolves success_answer \<noteq> NeverSettles
   \<and> Resolves failure_answer \<noteq> NeverSettles
   \<and> Rejects failed_to_fetch \<noteq> NeverSettles
   \<and> \<not> generateBtn_disabled
         (onGenerateClicked test_platform (Resolves success_answer) (idle_panel ''10'' ''100'' ''1000''))
   \<and> \<not> generateBtn_disabled
         (onGenerateClicked test_platform (Resolves failure_answer) (idle_panel ''10'' ''100'' ''1000''))
   \<and> \<not> generateBtn_disabled
         (onGenerateClicked test_platform (Rejects failed_to_fetch) (idle_panel ''10'' ''100'' ''1000''))
   \<and> btnLoader_display
         (onGenerateClicked test_platform (Rejects failed_to_fetch) (idle_panel ''10'' ''100'' ''1000''))
       = ''none''
   \<and> btnText_display
         (onGenerateClicked test_platform (Rejects failed_to_fetch) (idle_panel ''10'' ''100'' ''1000''))
       = ''inline''"
proof -
  have valid: "\<not> js_ge (parseInt (targetMin_value (idle_panel ''10'' ''100'' ''1000'')))
                     (parseInt (targetMax_value (idle_panel ''10'' ''100'' ''1000'')))"
    by (simp add: idle_panel_def parseInt_10 parseInt_100 js_ge_def)
  have valid': "\<not> js_ge (parseInt ''10'') (parseInt ''100'')"
    by (simp add: parseInt_10 parseInt_100 js_ge_def)
  from settled_request_restores_idle [OF valid, of "Resolves success_answer" test_platform]
       settled_request_restores_idle [OF valid, of "Resolves failure_answer" test_platform]
       settled_request_restores_idle [OF valid, of "Rejects failed_to_fetch" test_platform]
       valid'
  show ?thesis by simp
qed

text \<open>
  The terminal step needs the request to settle: while it does not, the handler is
  suspended with the button disabled and the loader shown.
\<close>

lemma pending_request_keeps_loading:
  assumes "\<not> js_ge (parseInt (targetMin_value s)) (parseInt (targetMax_value s))"
  shows "generateBtn_disabled (onGenerateClicked p NeverSettles s)
         \<and> btnLoader_display (onGenerateClicked p NeverSettles s) = ''inline-block''"
  using assms by (simp add: onGenerateClicked_def dispatched_def showStatus_def)

section \<open>Properties of the navigation session widget\<close>

subsection \<open>The session check\<close>

lemma set_if_present_twice [simp]:
  "set_if_present a (set_if_present b el) = set_if_present a el"
  by (cases el) (simp_all add: set_if_present_def)

lemma showAuthenticatedNavbar_controls:
  assumes "showAuthenticatedNavbar p user w = (r, w')"
  shows "navUserInfo_display w' = set_if_present ''flex'' (navUserInfo_display w)
         \<and> navLogoutBtn_display w' = set_if_present ''inline-block'' (navLogoutBtn_display w)
         \<and> navLoginBtn_display w' = set_if_present ''none'' (navLoginBtn_display w)
         \<and> navUser w' = navUser w"
  using assms
  by (auto simp: showAuthenticatedNavbar_def and_then_def split: option.splits sum.splits)

lemma showAuthenticatedNavbar_rendered:
  assumes "get_prop p user ''username'' = Inr un" and "to_text p un = Inr name"
    and "get_prop p user ''elo'' = Inr el" and "to_string p el = Inr elo"
  shows "showAuthenticatedNavbar p user w =
           (None,
            w\<lparr>navUserInfo_display := set_if_present ''flex'' (navUserInfo_display w),
              navLogoutBtn_display := set_if_present ''inline-block'' (navLogoutBtn_display w),
              navLoginBtn_display := set_if_present ''none'' (navLoginBtn_display w),
              navUsername_textContent := set_if_present name (navUsername_textContent w),
              navElo_textContent := set_if_present (''ELO: '' @ elo) (navElo_textContent w)\<rparr>)"
  using assms
  by (cases "navUsername_textContent w"; cases "navElo_textContent w")
     (simp_all add: showAuthenticatedNavbar_def and_then_def set_if_present_def)

lemma showAuthenticatedNavbar_no_user:
  assumes "nullish user"
    and "navUsername_textContent w \<noteq> None \<or> navElo_textContent w \<noteq> None"
  shows "fst (showAuthenticatedNavbar p user w) = Some (type_error p)"
proof -
  from assms(1) have "get_prop p user ''username'' = Inl (type_error p)"
    and "get_prop p user ''elo'' = Inl (type_error p)"
    by (cases user; simp)+
  with assms(2) show ?thesis
    by (cases "navUsername_textContent w"; cases "navElo_textContent w")
       (simp_all add: showAuthenticatedNavbar_def and_then_def)
qed

lemma initNavbar_caught:
  assumes "outcome \<noteq> NeverSettles"
    and "initNavbar_try p outcome (w\<lparr>fetched := fetched w @ [session_request p]\<rparr>) = (Some e, w')"
  shows "initNavbar p outcome w =
           showUnauthenticatedNavbar (w'\<lparr>console_errors := console_errors w' @ [(initNavbar_label, e)]\<rparr>)"
  using assms by (simp add: initNavbar_def Let_def)

lemma initNavbar_passed:
  assumes "outcome \<noteq> NeverSettles"
    and "initNavbar_try p outcome (w\<lparr>fetched := fetched w @ [session_request p]\<rparr>) = (None, w')"
  shows "initNavbar p outcome w = w'"
  using assms by (simp add: initNavbar_def Let_def)

lemma initNavbar_try_presence:
  assumes "initNavbar_try p outcome w = (r, w')"
  shows "set_if_present d (navUserInfo_display w') = set_if_present d (navUserInfo_display w)
         \<and> set_if_present d (navLogoutBtn_display w') = set_if_present d (navLogoutBtn_display w)
         \<and> set_if_present d (navLoginBtn_display w') = set_if_present d (navLoginBtn_display w)"
proof (cases outcome)
  case NeverSettles
  with assms show ?thesis by (simp add: initNavbar_try_def)
next
  case (Rejects e)
  with assms show ?thesis by (auto simp: initNavbar_try_def)
next
  case (Resolves data)
  show ?thesis
  proof (cases "get_prop p data ''success''")
    case (Inl e)
    with assms Resolves show ?thesis by (auto simp: initNavbar_try_def)
  next
    case (Inr success)
    show ?thesis
    proof (cases "truthy success")
      case False
      with assms Resolves Inr show ?thesis
        by (auto simp: initNavbar_try_def showUnauthenticatedNavbar_def)
    next
      case True
      obtain user where user: "get_prop p data ''user'' = Inr user"
        using Inr by (cases data) auto
      with assms Resolves Inr True
      have "showAuthenticatedNavbar p user (w\<lparr>navUser := user\<rparr>) = (r, w')"
        by (simp add: initNavbar_try_def)
      from showAuthenticatedNavbar_controls [OF this] show ?thesis
        by simp
    qed
  qed
qed

lemma initNavbar_try_passed:
  assumes "initNavbar_try p outcome w = (None, w')" and "outcome \<noteq> NeverSettles"
  shows "navUserInfo_display w' = set_if_present ''flex'' (navUserInfo_display w)
           \<and> navLogoutBtn_display w' = set_if_present ''inline-block'' (navLogoutBtn_display w)
           \<and> navLoginBtn_display w' = set_if_present ''none'' (navLoginBtn_display w)
         \<or> navUserInfo_display w' = set_if_present ''none'' (navUserInfo_display w)
           \<and> navLogoutBtn_display w' = set_if_present ''none'' (navLogoutBtn_display w)
           \<and> navLoginBtn_display w' = set_if_present ''inline-block'' (navLoginBtn_display w)"
proof (cases outcome)
  case NeverSettles
  with assms show ?thesis by simp
next
  case (Rejects e)
  with assms show ?thesis by (simp add: initNavbar_try_def)
next
  case (Resolves data)
  show ?thesis
  proof (cases "get_prop p data ''success''")
    case (Inl e)
    with assms Resolves show ?thesis by (simp add: initNavbar_try_def)
  next
    case (Inr success)
    show ?thesis
    proof (cases "truthy success")
      case False
      with assms Resolves Inr show ?thesis
        by (auto simp: initNavbar_try_def showUnauthenticatedNavbar_def)
    next
      case True
      obtain user where user: "get_prop p data ''user'' = Inr user"
        using Inr by (cases data) auto
      with assms Resolves Inr True
      have "showAuthenticatedNavbar p user (w\<lparr>navUser := user\<rparr>) = (None, w')"
        by (simp add: initNavbar_try_def)
      from showAuthenticatedNavbar_controls [OF this] show ?thesis
        by simp
    qed
  qed
qed

lemma initNavbar_two_states:
  assumes "outcome \<noteq> NeverSettles"
  shows "navUserInfo_display (initNavbar p outcome w) = set_if_present ''flex'' (navUserInfo_display w)
           \<and> navLogoutBtn_display (initNavbar p outcome w)
               = set_if_present ''inline-block'' (navLogoutBtn_display w)
           \<and> navLoginBtn_display (initNavbar p outcome w) = set_if_present ''none'' (navLoginBtn_display w)
         \<or> navUserInfo_display (initNavbar p outcome w) = set_if_present ''none'' (navUserInfo_display w)
           \<and> navLogoutBtn_display (initNavbar p outcome w) = set_if_present ''none'' (navLogoutBtn_display w)
           \<and> navLoginBtn_display (initNavbar p outcome w)
               = set_if_present ''inline-block'' (navLoginBtn_display w)"
proof -
  obtain r w' where t:
    "initNavbar_try p outcome (w\<lparr>fetched := fetched w @ [session_request p]\<rparr>) = (r, w')"
    by (cases "initNavbar_try p outcome (w\<lparr>fetched := fetched w @ [session_request p]\<rparr>)") auto
  show ?thesis
  proof (cases r)
    case None
    with t assms have "initNavbar p outcome w = w'"
      by (simp add: initNavbar_passed)
    moreover from initNavbar_try_passed [OF t [unfolded None] assms]
    have "navUserInfo_display w' = set_if_present ''flex'' (navUserInfo_display w)
           \<and> navLogoutBtn_display w' = set_if_present ''inline-block'' (navLogoutBtn_display w)
           \<and> navLoginBtn_display w' = set_if_present ''none'' (navLoginBtn_display w)
         \<or> navUserInfo_display w' = set_if_present ''none'' (navUserInfo_display w)
           \<and> navLogoutBtn_display w' = set_if_present ''none'' (navLogoutBtn_display w)
           \<and> navLoginBtn_display w' = set_if_present ''inline-block'' (navLoginBtn_display w)"
      by simp
    ultimately show ?thesis by simp
  next
    case (Some e)
    with t assms have "initNavbar p outcome w =
        showUnauthenticatedNavbar (w'\<lparr>console_errors := console_errors w' @ [(initNavbar_label, e)]\<rparr>)"
      by (simp add: initNavbar_caught)
    moreover from initNavbar_try_presence [OF t]
    have "set_if_present ''none'' (navUserInfo_display w') = set_if_present ''none'' (navUserInfo_display w)"
      and "set_if_present ''none'' (navLogoutBtn_display w') = set_if_present ''none'' (navLogoutBtn_display w)"
      and "set_if_present ''inline-block'' (navLoginBtn_display w')
           = set_if_present ''inline-block'' (navLoginBtn_display w)"
      by simp_all
    ultimately show ?thesis
      by (simp add: showUnauthenticatedNavbar_def)
  qed
qed

text \<open>
  C6, as the claim states it, fails: an answer with a truthy \<^verbatim>\<open>success\<close> and no \<^verbatim>\<open>user\<close>
  does not end in the Authenticated bar. \<^verbatim>\<open>navUser\<close> becomes \<^verbatim>\<open>undefined\<close>, the three
  controls are first set as for a session, reading \<^verbatim>\<open>user.username\<close> then raises a
  TypeError, and the \<^verbatim>\<open>catch\<close> block renders the Unauthenticated bar: the login control
  is shown, user info and logout are hidden.
\<close>

theorem success_without_user_is_unauthenticated:
  "get_prop test_platform truncated_answer ''success'' = Inr (Bool True)
   \<and> truthy (Bool True)
   \<and> initNavbar test_platform (Resolves truncated_answer) (blank_page ''/index.html'') =
       (blank_page ''/index.html'')
         \<lparr>navUser := Undefined,
          navUserInfo_display := Some ''none'',
          navLogoutBtn_display := Some ''none'',
          navLoginBtn_display := Some ''inline-block'',
          fetched := [session_request test_platform],
          console_errors := [(initNavbar_label, type_error test_platform)]\<rparr>"
  by (simp add: initNavbar_def initNavbar_try_def showAuthenticatedNavbar_def
      showUnauthenticatedNavbar_def and_then_def set_if_present_def truncated_answer_def
      blank_page_def)

text \<open>
  C6, amended. Every session check that settles leaves the three controls of the bar
  in one of two states, Authenticated (user info \<^verbatim>\<open>flex\<close>, logout \<^verbatim>\<open>inline-block\<close>, login
  \<^verbatim>\<open>none\<close>) or Unauthenticated (user info \<^verbatim>\<open>none\<close>, logout \<^verbatim>\<open>none\<close>, login
  \<^verbatim>\<open>inline-block\<close>), on the elements the page has.
  \<^item> An answer with a truthy \<^verbatim>\<open>success\<close> and a \<^verbatim>\<open>user\<close> whose \<^verbatim>\<open>username\<close> and \<^verbatim>\<open>elo\<close> can be
    read and printed (any user but \<^verbatim>\<open>null\<close> and \<^verbatim>\<open>undefined\<close>, for a name and a rating
    that are strings or numbers) stores the user, renders the Authenticated bar, shows
    the name and shows \<^verbatim>\<open>ELO:\<close> followed by the rating.
  \<^item> A rejected request, an answer that is \<^verbatim>\<open>null\<close>, and an answer whose \<^verbatim>\<open>success\<close> is
    falsy or missing render the Unauthenticated bar and leave \<^verbatim>\<open>navUser\<close> as it was.
  \<^item> An answer with a truthy \<^verbatim>\<open>success\<close> whose \<^verbatim>\<open>user\<close> is \<^verbatim>\<open>null\<close> or missing stores that
    value and, on a page that has the name or the rating element, renders the
    Unauthenticated bar.
\<close>

theorem session_check_decides_the_bar:
  "(get_prop p data ''success'' = Inr success \<and> truthy success
      \<and> get_prop p data ''user'' = Inr user
      \<and> get_prop p user ''username'' = Inr un \<and> to_text p un = Inr name
      \<and> get_prop p user ''elo'' = Inr el \<and> to_string p el = Inr elo
    \<longrightarrow> initNavbar p (Resolves data) w =
          w\<lparr>navUser := user,
            navUserInfo_display := set_if_present ''flex'' (navUserInfo_display w),
            navLogoutBtn_display := set_if_present ''inline-block'' (navLogoutBtn_display w),
            navLoginBtn_display := set_if_present ''none'' (navLoginBtn_display w),
            navUsername_textContent := set_if_present name (navUsername_textContent w),
            navElo_textContent := set_if_present (''ELO: '' @ elo) (navElo_textContent w),
            fetched := fetched w @ [session_request p]\<rparr>)
   \<and> (outcome = Rejects e
        \<or> (outcome = Resolves data
            \<and> (get_prop p data ''success'' = Inl e
                \<or> (get_prop p data ''success'' = Inr success \<and> \<not> truthy success)))
      \<longrightarrow> navUserInfo_display (initNavbar p outcome w) = set_if_present ''none'' (navUserInfo_display w)
          \<and> navLogoutBtn_display (initNavbar p outcome w) = set_if_present ''none'' (navLogoutBtn_display w)
          \<and> navLoginBtn_display (initNavbar p outcome w)
              = set_if_present ''inline-block'' (navLoginBtn_display w)
          \<and> navUser (initNavbar p outcome w) = navUser w)
   \<and> (get_prop p data ''success'' = Inr success \<and> truthy success
        \<and> get_prop p data ''user'' = Inr user \<and> nullish user
        \<and> (navUsername_textContent w \<noteq> None \<or> navElo_textContent w \<noteq> None)
      \<longrightarrow> navUserInfo_display (initNavbar p (Resolves data) w)
            = set_if_present ''none'' (navUserInfo_display w)
          \<and> navLogoutBtn_display (initNavbar p (Resolves data) w)
              = set_if_present ''none'' (navLogoutBtn_display w)
          \<and> navLoginBtn_display (initNavbar p (Resolves data) w)
              = set_if_present ''inline-block'' (navLoginBtn_display w)
          \<and> navUser (initNavbar p (Resolves data) w) = user)
   \<and> (outcome \<noteq> NeverSettles
      \<longrightarrow> navUserInfo_display (initNavbar p outcome w) = set_if_present ''flex'' (navUserInfo_display w)
            \<and> navLogoutBtn_display (initNavbar p outcome w)
                = set_if_present ''inline-block'' (navLogoutBtn_display w)
            \<and> navLoginBtn_display (initNavbar p outcome w)
                = set_if_present ''none'' (navLoginBtn_display w)
          \<or> navUserInfo_display (initNavbar p outcome w) = set_if_present ''none'' (navUserInfo_display w)
            \<and> navLogoutBtn_display (initNavbar p outcome w)
                = set_if_present ''none'' (navLogoutBtn_display w)
            \<and> navLoginBtn_display (initNavbar p outcome w)
                = set_if_present ''inline-block'' (navLoginBtn_display w))"
proof (intro conjI)
  show "get_prop p data ''success'' = Inr success \<and> truthy success
      \<and> get_prop p data ''user'' = Inr user
      \<and> get_prop p user ''username'' = Inr un \<and> to_text p un = Inr name
      \<and> get_prop p user ''elo'' = Inr el \<and> to_string p el = Inr elo
    \<longrightarrow> initNavbar p (Resolves data) w =
          w\<lparr>navUser := user,
            navUserInfo_display := set_if_present ''flex'' (navUserInfo_display w),
            navLogoutBtn_display := set_if_present ''inline-block'' (navLogoutBtn_display w),
            navLoginBtn_display := set_if_present ''none'' (navLoginBtn_display w),
            navUsername_textContent := set_if_present name (navUsername_textContent w),
            navElo_textContent := set_if_present (''ELO: '' @ elo) (navElo_textContent w),
            fetched := fetched w @ [session_request p]\<rparr>"
  proof
    assume a: "get_prop p data ''success'' = Inr success \<and> truthy success
      \<and> get_prop p data ''user'' = Inr user
      \<and> get_prop p user ''username'' = Inr un \<and> to_text p un = Inr name
      \<and> get_prop p user ''elo'' = Inr el \<and> to_string p el = Inr elo"
    then have "showAuthenticatedNavbar p user (w\<lparr>fetched := fetched w @ [session_request p], navUser := user\<rparr>) =
           (None,
            (w\<lparr>fetched := fetched w @ [session_request p], navUser := user\<rparr>)
             \<lparr>navUserInfo_display := set_if_present ''flex''
                 (navUserInfo_display (w\<lparr>fetched := fetched w @ [session_request p], navUser := user\<rparr>)),
              navLogoutBtn_display := set_if_present ''inline-block''
                 (navLogoutBtn_display (w\<lparr>fetched := fetched w @ [session_request p], navUser := user\<rparr>)),
              navLoginBtn_display := set_if_present ''none''
                 (navLoginBtn_display (w\<lparr>fetched := fetched w @ [session_request p], navUser := user\<rparr>)),
              navUsername_textContent := set_if_present name
                 (navUsername_textContent (w\<lparr>fetched := fetched w @ [session_request p], navUser := user\<rparr>)),
              navElo_textContent := set_if_present (''ELO: '' @ elo)
                 (navElo_textContent (w\<lparr>fetched := fetched w @ [session_request p], navUser := user\<rparr>))\<rparr>)"
      by (intro showAuthenticatedNavbar_rendered [of p user un name el elo]) blast+
    with a show "initNavbar p (Resolves data) w =
          w\<lparr>navUser := user,
            navUserInfo_display := set_if_present ''flex'' (navUserInfo_display w),
            navLogoutBtn_display := set_if_present ''inline-block'' (navLogoutBtn_display w),
            navLoginBtn_display := set_if_present ''none'' (navLoginBtn_display w),
            navUsername_textContent := set_if_present name (navUsername_textContent w),
            navElo_textContent := set_if_present (''ELO: '' @ elo) (navElo_textContent w),
            fetched := fetched w @ [session_request p]\<rparr>"
      by (simp add: initNavbar_def initNavbar_try_def Let_def)
  qed
next
  show "outcome = Rejects e
        \<or> (outcome = Resolves data
            \<and> (get_prop p data ''success'' = Inl e
                \<or> (get_prop p data ''success'' = Inr success \<and> \<not> truthy success)))
      \<longrightarrow> navUserInfo_display (initNavbar p outcome w) = set_if_present ''none'' (navUserInfo_display w)
          \<and> navLogoutBtn_display (initNavbar p outcome w) = set_if_present ''none'' (navLogoutBtn_display w)
          \<and> navLoginBtn_display (initNavbar p outcome w)
              = set_if_present ''inline-block'' (navLoginBtn_display w)
          \<and> navUser (initNavbar p outcome w) = navUser w"
    by (auto simp: initNavbar_def initNavbar_try_def showUnauthenticatedNavbar_def Let_def)
next
  show "get_prop p data ''success'' = Inr success \<and> truthy success
        \<and> get_prop p data ''user'' = Inr user \<and> nullish user
        \<and> (navUsername_textContent w \<noteq> None \<or> navElo_textContent w \<noteq> None)
      \<longrightarrow> navUserInfo_display (initNavbar p (Resolves data) w)
            = set_if_present ''none'' (navUserInfo_display w)
          \<and> navLogoutBtn_display (initNavbar p (Resolves data) w)
              = set_if_present ''none'' (navLogoutBtn_display w)
          \<and> navLoginBtn_display (initNavbar p (Resolves data) w)
              = set_if_present ''inline-block'' (navLoginBtn_display w)
          \<and> navUser (initNavbar p (Resolves data) w) = user"
  proof
    assume a: "get_prop p data ''success'' = Inr success \<and> truthy success
        \<and> get_prop p data ''user'' = Inr user \<and> nullish user
        \<and> (navUsername_textContent w \<noteq> None \<or> navElo_textContent w \<noteq> None)"
    let ?w1 = "w\<lparr>fetched := fetched w @ [session_request p], navUser := user\<rparr>"
    obtain r w' where sh: "showAuthenticatedNavbar p user ?w1 = (r, w')"
      by (cases "showAuthenticatedNavbar p user ?w1") auto
    from a have "fst (showAuthenticatedNavbar p user ?w1) = Some (type_error p)"
      by (intro showAuthenticatedNavbar_no_user) (blast, simp)
    with sh have r: "r = Some (type_error p)" by simp
    from showAuthenticatedNavbar_controls [OF sh]
    have w': "navUserInfo_display w' = set_if_present ''flex'' (navUserInfo_display w)"
      "navLogoutBtn_display w' = set_if_present ''inline-block'' (navLogoutBtn_display w)"
      "navLoginBtn_display w' = set_if_present ''none'' (navLoginBtn_display w)"
      "navUser w' = user"
      by simp_all
    from a sh r have "initNavbar p (Resolves data) w =
        showUnauthenticatedNavbar
          (w'\<lparr>console_errors := console_errors w' @ [(initNavbar_label, type_error p)]\<rparr>)"
      by (simp add: initNavbar_def initNavbar_try_def Let_def)
    with w' show "navUserInfo_display (initNavbar p (Resolves data) w)
            = set_if_present ''none'' (navUserInfo_display w)
          \<and> navLogoutBtn_display (initNavbar p (Resolves data) w)
              = set_if_present ''none'' (navLogoutBtn_display w)
          \<and> navLoginBtn_display (initNavbar p (Resolves data) w)
              = set_if_present ''inline-block'' (navLoginBtn_display w)
          \<and> navUser (initNavbar p (Resolves data) w) = user"
      by (simp add: showUnauthenticatedNavbar_def)
  qed
next
  show "outcome \<noteq> NeverSettles
      \<longrightarrow> navUserInfo_display (initNavbar p outcome w) = set_if_present ''flex'' (navUserInfo_display w)
            \<and> navLogoutBtn_display (initNavbar p outcome w)
                = set_if_present ''inline-block'' (navLogoutBtn_display w)
            \<and> navLoginBtn_display (initNavbar p outcome w)
                = set_if_present ''none'' (navLoginBtn_display w)
          \<or> navUserInfo_display (initNavbar p outcome w) = set_if_present ''none'' (navUserInfo_display w)
            \<and> navLogoutBtn_display (initNavbar p outcome w)
                = set_if_present ''none'' (navLogoutBtn_display w)
            \<and> navLoginBtn_display (initNavbar p outcome w)
                = set_if_present ''inline-block'' (navLoginBtn_display w)"
    using initNavbar_two_states [of outcome p w] by blast
qed

lemma decimal_1500: "decimal 1500 = ''1500''"
  by (simp add: decimal_def decimal_digits.simps digit_char_def)

theorem session_check_decides_the_bar_witness:
  "truthy (Bool True)
   \<and> initNavbar test_platform (Resolves alice_answer) (blank_page ''/index.html'') =
       (blank_page ''/index.html'')
         \<lparr>navUser := Obj [(''username'', Str ''alice''), (''elo'', Num (Fin 1500))],
          navUserInfo_display := Some ''flex'',
          navLogoutBtn_display := Some ''inline-block'',
          navLoginBtn_display := Some ''none'',
          navUsername_textContent := Some ''alice'',
          navElo_textContent := Some ''ELO: 1500'',
          fetched := [session_request test_platform]\<rparr>
   \<and> \<not> truthy (Bool False)
   \<and> navLoginBtn_display (initNavbar test_platform (Resolves logged_out_answer) (blank_page ''/index.html''))
       = Some ''inline-block''
   \<and> navUserInfo_display (initNavbar test_platform (Resolves logged_out_answer) (blank_page ''/index.html''))
       = Some ''none''
   \<and> navLogoutBtn_display (initNavbar test_platform (Resolves logged_out_answer) (blank_page ''/index.html''))
       = Some ''none''
   \<and> navLoginBtn_display (initNavbar test_platform (Rejects failed_to_fetch) (blank_page ''/index.html''))
       = Some ''inline-block''
   \<and> navUserInfo_display (initNavbar test_platform (Rejects failed_to_fetch) (blank_page ''/index.html''))
       = Some ''none''
   \<and> nullish Undefined
   \<and> navLoginBtn_display (initNavbar test_platform (Resolves truncated_answer) (blank_page ''/index.html''))
       = Some ''inline-block''
   \<and> navUser (initNavbar test_platform (Resolves truncated_answer) (blank_page ''/index.html''))
       = Undefined"
proof -
  have alice: "initNavbar test_platform (Resolves alice_answer) (blank_page ''/index.html'') =
       (blank_page ''/index.html'')
         \<lparr>navUser := Obj [(''username'', Str ''alice''), (''elo'', Num (Fin 1500))],
          navUserInfo_display := Some ''flex'',
          navLogoutBtn_display := Some ''inline-block'',
          navLoginBtn_display := Some ''none'',
          navUsername_textContent := Some ''alice'',
          navElo_textContent := Some ''ELO: 1500'',
          fetched := [session_request test_platform]\<rparr>"
    using session_check_decides_the_bar
      [where p = test_platform and data = alice_answer and success = "Bool True"
         and user = "Obj [(''username'', Str ''alice''), (''elo'', Num (Fin 1500))]"
         and un = "Str ''alice''" and name = "''alice''"
         and el = "Num (Fin 1500)" and elo = "''1500''"
         and w = "blank_page ''/index.html''"]
    by (simp add: alice_answer_def to_text_def number_to_string_def decimal_1500
        set_if_present_def blank_page_def)
  have logged_out:
    "navLoginBtn_display (initNavbar test_platform (Resolves logged_out_answer) (blank_page ''/index.html''))
       = Some ''inline-block''
     \<and> navUserInfo_display (initNavbar test_platform (Resolves logged_out_answer) (blank_page ''/index.html''))
       = Some ''none''
     \<and> navLogoutBtn_display (initNavbar test_platform (Resolves logged_out_answer) (blank_page ''/index.html''))
       = Some ''none''"
    using session_check_decides_the_bar
      [where p = test_platform and data = logged_out_answer and success = "Bool False"
         and outcome = "Resolves logged_out_answer" and w = "blank_page ''/index.html''"]
    by (simp add: logged_out_answer_def set_if_present_def blank_page_def)
  have rejected:
    "navLoginBtn_display (initNavbar test_platform (Rejects failed_to_fetch) (blank_page ''/index.html''))
       = Some ''inline-block''
     \<and> navUserInfo_display (initNavbar test_platform (Rejects failed_to_fetch) (blank_page ''/index.html''))
       = Some ''none''"
    using session_check_decides_the_bar
      [where p = test_platform and e = failed_to_fetch
         and outcome = "Rejects failed_to_fetch" and w = "blank_page ''/index.html''"]
    by (simp add: set_if_present_def blank_page_def)
  have truncated:
    "navLoginBtn_display (initNavbar test_platform (Resolves truncated_answer) (blank_page ''/index.html''))
       = Some ''inline-block''
     \<and> navUser (initNavbar test_platform (Resolves truncated_answer) (blank_page ''/index.html''))
       = Undefined"
    using session_check_decides_the_bar
      [where p = test_platform and data = truncated_answer and success = "Bool True"
         and user = Undefined and w = "blank_page ''/index.html''"]
    by (simp add: truncated_answer_def set_if_present_def blank_page_def)
  from alice logged_out rejected truncated show ?thesis by simp
qed

subsection \<open>Logout\<close>

text \<open>
  C7. When the user declines the prompt, \<^verbatim>\<open>handleNavLogout\<close> leaves everything as it
  was, whatever the page's hook and the network would have done: no request, the local
  storage untouched, no navigation, no call of \<^verbatim>\<open>setPlayerOffline\<close>, no alert.
\<close>

theorem declined_logout_does_nothing:
  "handleNavLogout p False setPlayerOffline outcome w = w
   \<and> fetched (handleNavLogout p False setPlayerOffline outcome w) = fetched w
   \<and> localStorage (handleNavLogout p False setPlayerOffline outcome w) = localStorage w
   \<and> navigated_to (handleNavLogout p False setPlayerOffline outcome w) = navigated_to w
   \<and> offline_calls (handleNavLogout p False setPlayerOffline outcome w) = offline_calls w
   \<and> alerts (handleNavLogout p False setPlayerOffline outcome w) = alerts w"
  by (simp add: handleNavLogout_def)

theorem declined_logout_does_nothing_witness:
  "handleNavLogout test_platform False HookReturns (Resolves truncated_answer) (blank_page ''/game.html'')
     = blank_page ''/game.html''
   \<and> fetched (handleNavLogout test_platform False HookReturns (Resolves truncated_answer)
        (blank_page ''/game.html'')) = []
   \<and> localStorage (handleNavLogout test_platform False HookReturns (Resolves truncated_answer)
        (blank_page ''/game.html'')) = [(''theme'', ''dark'')]
   \<and> navigated_to (handleNavLogout test_platform False HookReturns (Resolves truncated_answer)
        (blank_page ''/game.html'')) = None
   \<and> offline_calls (handleNavLogout test_platform False HookReturns (Resolves truncated_answer)
        (blank_page ''/game.html'')) = 0"
  using declined_logout_does_nothing
    [of test_platform HookReturns "Resolves truncated_answer" "blank_page ''/game.html''"]
  by (simp add: blank_page_def)

text \<open>
  C8. When the user confirms, the hook (if the page has one) returns, and the answer of
  the logout endpoint has a truthy \<^verbatim>\<open>success\<close>, the local storage is emptied and the
  browser is sent to \<^verbatim>\<open>auth.html\<close>; one request, the logout request, has been issued.
\<close>

theorem confirmed_logout_clears_and_leaves:
  assumes "setPlayerOffline = NoHook \<or> setPlayerOffline = HookReturns"
    and "get_prop p data ''success'' = Inr success"
    and "truthy success"
  shows "localStorage (handleNavLogout p True setPlayerOffline (Resolves data) w) = []
         \<and> navigated_to (handleNavLogout p True setPlayerOffline (Resolves data) w) = Some ''auth.html''
         \<and> fetched (handleNavLogout p True setPlayerOffline (Resolves data) w)
             = fetched w @ [logout_request p]
         \<and> alerts (handleNavLogout p True setPlayerOffline (Resolves data) w) = alerts w"
  using assms
  by (auto simp: handleNavLogout_def logout_fetch_def Let_def)

theorem confirmed_logout_clears_and_leaves_witness:
  "truthy (Bool True)
   \<and> localStorage (blank_page ''/game.html'') = [(''theme'', ''dark'')]
   \<and> localStorage (handleNavLogout test_platform True NoHook (Resolves truncated_answer)
        (blank_page ''/game.html'')) = []
   \<and> navigated_to (handleNavLogout test_platform True NoHook (Resolves truncated_answer)
        (blank_page ''/game.html'')) = Some ''auth.html''
   \<and> localStorage (handleNavLogout test_platform True HookReturns (Resolves truncated_answer)
        (blank_page ''/game.html'')) = []
   \<and> navigated_to (handleNavLogout test_platform True HookReturns (Resolves truncated_answer)
        (blank_page ''/game.html'')) = Some ''auth.html''
   \<and> fetched (handleNavLogout test_platform True HookReturns (Resolves truncated_answer)
        (blank_page ''/game.html'')) = [logout_request test_platform]"
proof -
  have s: "get_prop test_platform truncated_answer ''success'' = Inr (Bool True)"
    by (simp add: truncated_answer_def)
  from confirmed_logout_clears_and_leaves
         [of NoHook test_platform truncated_answer "Bool True" "blank_page ''/game.html''"]
       confirmed_logout_clears_and_leaves
         [of HookReturns test_platform truncated_answer "Bool True" "blank_page ''/game.html''"]
       s
  show ?thesis by (simp add: blank_page_def)
qed

text \<open>
  C10. When the user confirms and the page's hook exists and its awaited call throws
  or rejects, the logout request is never issued, the local storage is not cleared,
  nothing navigates, and the one alert shown is the generic
  \<^verbatim>\<open>Erreur de connexion au serveur\<close>; the hook has been called once and its exception is
  logged to the console.
\<close>

theorem failing_hook_aborts_logout:
  "fetched (handleNavLogout p True (HookThrows e) outcome w) = fetched w
   \<and> localStorage (handleNavLogout p True (HookThrows e) outcome w) = localStorage w
   \<and> navigated_to (handleNavLogout p True (HookThrows e) outcome w) = navigated_to w
   \<and> alerts (handleNavLogout p True (HookThrows e) outcome w)
       = alerts w @ [''Erreur de connexion au serveur'']
   \<and> offline_calls (handleNavLogout p True (HookThrows e) outcome w) = Suc (offline_calls w)
   \<and> console_errors (handleNavLogout p True (HookThrows e) outcome w)
       = console_errors w @ [(logout_label, e)]"
  by (simp add: handleNavLogout_def logout_catch_def)

theorem failing_hook_aborts_logout_witness:
  "fetched (handleNavLogout test_platform True (HookThrows hook_failure) (Resolves truncated_answer)
        (blank_page ''/game.html'')) = []
   \<and> localStorage (handleNavLogout test_platform True (HookThrows hook_failure)
        (Resolves truncated_answer) (blank_page ''/game.html'')) = [(''theme'', ''dark'')]
   \<and> navigated_to (handleNavLogout test_platform True (HookThrows hook_failure)
        (Resolves truncated_answer) (blank_page ''/game.html'')) = None
   \<and> alerts (handleNavLogout test_platform True (HookThrows hook_failure)
        (Resolves truncated_answer) (blank_page ''/game.html'')) = [''Erreur de connexion au serveur'']"
  using failing_hook_aborts_logout
    [of test_platform hook_failure "Resolves truncated_answer" "blank_page ''/game.html''"]
  by (simp add: blank_page_def)

subsection \<open>The active link\<close>

lemma currentPage_home:
  "currentPage ''/index.html'' = ''index.html''"
  "currentPage [] = ''index.html''"
  "currentPage ''/'' = ''index.html''"
  by (simp_all add: currentPage_def)

lemma mark_link_idempotent: "mark_link c (mark_link c l) = mark_link c l"
  by (simp add: mark_link_def Let_def classList_add_def classList_remove_def)

lemma mark_link_href: "href (mark_link c l) = href l"
  by (simp add: mark_link_def Let_def)

lemma mark_link_home_active:
  "''active'' \<in> set (link_class (mark_link ''index.html'' l)) \<longleftrightarrow> href l = Some ''index.html''"
  by (simp add: mark_link_def Let_def classList_add_def classList_remove_def)

lemma mark_link_others:
  "filter (\<lambda>c. c \<noteq> ''active'') (link_class (mark_link c l))
     = filter (\<lambda>c. c \<noteq> ''active'') (link_class l)"
  by (simp add: mark_link_def Let_def classList_add_def classList_remove_def)

text \<open>
  C9. \<^verbatim>\<open>setActiveNavLink\<close> is idempotent. On the path \<^verbatim>\<open>/index.html\<close>, on the empty path
  and on the root path, the links keep their number, order and \<^verbatim>\<open>href\<close>; a link carries
  the class \<^verbatim>\<open>active\<close> afterwards exactly when its \<^verbatim>\<open>href\<close> is \<^verbatim>\<open>index.html\<close>; and the other
  classes of every link are as they were.
\<close>

theorem active_link_is_reconciled:
  "setActiveNavLink (setActiveNavLink w) = setActiveNavLink w
   \<and> (pathname w = ''/index.html'' \<or> pathname w = [] \<or> pathname w = ''/''
      \<longrightarrow> length (navbar_links (setActiveNavLink w)) = length (navbar_links w)
        \<and> (\<forall>i < length (navbar_links w).
              href (navbar_links (setActiveNavLink w) ! i) = href (navbar_links w ! i)
              \<and> (''active'' \<in> set (link_class (navbar_links (setActiveNavLink w) ! i))
                   \<longleftrightarrow> href (navbar_links w ! i) = Some ''index.html'')
              \<and> filter (\<lambda>c. c \<noteq> ''active'') (link_class (navbar_links (setActiveNavLink w) ! i))
                  = filter (\<lambda>c. c \<noteq> ''active'') (link_class (navbar_links w ! i))))"
proof (intro conjI impI)
  show "setActiveNavLink (setActiveNavLink w) = setActiveNavLink w"
    by (simp add: setActiveNavLink_def mark_link_idempotent)
next
  assume "pathname w = ''/index.html'' \<or> pathname w = [] \<or> pathname w = ''/''"
  then show "length (navbar_links (setActiveNavLink w)) = length (navbar_links w)"
    by (simp add: setActiveNavLink_def)
next
  assume "pathname w = ''/index.html'' \<or> pathname w = [] \<or> pathname w = ''/''"
  then have home: "currentPage (pathname w) = ''index.html''"
    using currentPage_home by auto
  show "\<forall>i < length (navbar_links w).
              href (navbar_links (setActiveNavLink w) ! i) = href (navbar_links w ! i)
              \<and> (''active'' \<in> set (link_class (navbar_links (setActiveNavLink w) ! i))
                   \<longleftrightarrow> href (navbar_links w ! i) = Some ''index.html'')
              \<and> filter (\<lambda>c. c \<noteq> ''active'') (link_class (navbar_links (setActiveNavLink w) ! i))
                  = filter (\<lambda>c. c \<noteq> ''active'') (link_class (navbar_links w ! i))"
    by (simp add: setActiveNavLink_def home mark_link_href mark_link_home_active mark_link_others)
qed

theorem active_link_is_reconciled_witness:
  "setActiveNavLink (setActiveNavLink (blank_page ''/index.html'')) = setActiveNavLink (blank_page ''/index.html'')
   \<and> href (navbar_links (blank_page ''/index.html'') ! 0) = Some ''index.html''
   \<and> ''active'' \<in> set (link_class (navbar_links (setActiveNavLink (blank_page ''/index.html'')) ! 0))
   \<and> href (navbar_links (blank_page ''/index.html'') ! Suc 0) = Some ''game.html''
   \<and> ''active'' \<notin> set (link_class (navbar_links (setActiveNavLink (blank_page ''/index.html'')) ! Suc 0))
   \<and> ''active'' \<in> set (link_class (navbar_links (setActiveNavLink (blank_page [])) ! 0))
   \<and> ''active'' \<notin> set (link_class (navbar_links (setActiveNavLink (blank_page [])) ! Suc 0))"
proof -
  have len: "length (navbar_links (blank_page path)) = Suc (Suc 0)" for path
    by (simp add: blank_page_def)
  have hrefs: "href (navbar_links (blank_page path) ! 0) = Some ''index.html''"
    "href (navbar_links (blank_page path) ! Suc 0) = Some ''game.html''" for path
    by (simp_all add: blank_page_def)
  note a = active_link_is_reconciled [of "blank_page ''/index.html''"]
  note b = active_link_is_reconciled [of "blank_page []"]
  from a have idem: "setActiveNavLink (setActiveNavLink (blank_page ''/index.html''))
      = setActiveNavLink (blank_page ''/index.html'')"
    by blast
  have pa: "pathname (blank_page ''/index.html'') = ''/index.html''"
    and pb: "pathname (blank_page []) = []"
    by (simp_all add: blank_page_def)
  from a pa have a': "\<forall>i < Suc (Suc 0).
      (''active'' \<in> set (link_class (navbar_links (setActiveNavLink (blank_page ''/index.html'')) ! i))
         \<longleftrightarrow> href (navbar_links (blank_page ''/index.html'') ! i) = Some ''index.html'')"
    by (simp add: len)
  from b pb have b': "\<forall>i < Suc (Suc 0).
      (''active'' \<in> set (link_class (navbar_links (setActiveNavLink (blank_page [])) ! i))
         \<longleftrightarrow> href (navbar_links (blank_page []) ! i) = Some ''index.html'')"
    by (simp add: len)
  from a' have a0: "''active'' \<in> set (link_class (navbar_links (setActiveNavLink (blank_page ''/index.html'')) ! 0))"
    and a1: "''active'' \<notin> set (link_class (navbar_links (setActiveNavLink (blank_page ''/index.html'')) ! Suc 0))"
    by (simp_all add: hrefs)
  from b' have b0: "''active'' \<in> set (link_class (navbar_links (setActiveNavLink (blank_page [])) ! 0))"
    and b1: "''active'' \<notin> set (link_class (navbar_links (setActiveNavLink (blank_page [])) ! Suc 0))"
    by (simp_all add: hrefs)
  from idem a0 a1 b0 b1 hrefs show ?thesis by simp
qed

end
